theory Spec2Isabelle
  imports Complex_Main
begin

section \<open>Points-Lines: a shallow embedding of PointsLines.cpp\<close>

text \<open>
  The program is an interactive 2D geometry editor. This theory embeds its geometry
  (\<open>vec3\<close>, \<open>Line\<close>), its two registries (\<open>PointCollection\<close>, \<open>LineCollection\<close>) and
  its event handlers (\<open>onKeyboard\<close>, \<open>onMouse\<close>, \<open>onMouseMotion\<close>).

  Conventions of the embedding:
  \<^item> a stored \<open>float\<close> (a coordinate, a coefficient) is a real number, so it is finite;
  \<^item> every float computation that decides a branch or selects an element (the
    determinant test, the distances of the two nearest queries, the conversion of the
    cursor's pixel) is computed in IEEE binary32: each operation is rounded to nearest,
    ties to even, with gradual underflow, overflow to infinity and NaN (\<open>flt\<close>, \<open>rnd\<close>);
    the sign of a zero is not modelled, every zero divisor of the program being \<open>+0\<close>;
  \<^item> the coefficients and points that \<open>Line::Line\<close> and \<open>Line::move\<close> compute are the
    exact values of the source's formulas: their rounding is not modelled;
  \<^item> where a non-finite value would be stored, the model stops: with \<open>DivByZero\<close> in the
    unguarded division of \<open>Line::move\<close> (\<open>fdiv\<close>), with \<open>NotFinite\<close> elsewhere;
  \<^item> the program itself goes on after the division by zero, with infinities and NaNs in
    the line registry; for the drag, \<open>Line::move\<close> and \<open>onMouseMotion\<close> are therefore
    embedded a second time with every float a binary32 value (\<open>move_f\<close>,
    \<open>onMouseMotion_f\<close>);
  \<^item> \<open>std::vector::operator[]\<close> is the checked read \<open>vtx_at\<close> and the checked write
    \<open>vtx_put\<close>; an index outside the vector is \<open>OutOfBounds\<close>;
  \<^item> GPU uploads, redisplay requests and \<open>printf\<close> output are not part of the state.
\<close>

subsection \<open>Errors and checked primitives\<close>

datatype error = OutOfBounds | DivByZero | NotFinite

definition fdiv :: "real \<Rightarrow> real \<Rightarrow> error + real" where
  "fdiv u v = (if v = 0 then Inl DivByZero else Inr (u / v))"

text \<open>Reading \<open>v[i]\<close> with an \<open>int\<close> index: a negative \<open>int\<close> converts to a huge \<open>size_t\<close>.\<close>

definition vtx_at :: "'e list \<Rightarrow> int \<Rightarrow> error + 'e" where
  "vtx_at v i = (if 0 \<le> i \<and> i < int (length v) then Inr (v ! nat i) else Inl OutOfBounds)"

definition vtx_put :: "'e list \<Rightarrow> int \<Rightarrow> 'e \<Rightarrow> error + 'e list" where
  "vtx_put v i e = (if 0 \<le> i \<and> i < int (length v) then Inr (v[nat i := e]) else Inl OutOfBounds)"

subsection \<open>IEEE binary32 arithmetic\<close>

text \<open>
  A binary32 value: a finite number, an infinity or a NaN. \<open>Fin r\<close> is written only for
  numbers \<open>r\<close> that the operations below produce or that the program stores.
\<close>

datatype flt = Fin real | PInf | NInf | NaN

text \<open>Rounding a real number to the nearest integer, a tie to the even one.\<close>

definition rne :: "real \<Rightarrow> int" where
  "rne t = (let f = \<lfloor>t\<rfloor>; d = t - of_int f
            in if d < 1 / 2 then f else if 1 / 2 < d then f + 1
               else if even f then f else f + 1)"

text \<open>
  The binary exponent of a magnitude, searched upwards from the smallest normal exponent
  \<open>-126\<close>: the least \<open>e\<close> with \<open>r < 2 ^ (e + 1)\<close>, at most \<open>128\<close>. Subnormal
  magnitudes get \<open>-126\<close>.
\<close>

primrec expo_from :: "nat \<Rightarrow> int \<Rightarrow> real \<Rightarrow> int" where
  "expo_from 0 e r = e"
| "expo_from (Suc n) e r = (if r < 2 powi (e + 1) then e else expo_from n (e + 1) r)"

definition expo :: "real \<Rightarrow> int" where
  "expo r = expo_from 254 (- 126) \<bar>r\<bar>"

text \<open>
  Rounding to binary32: the significand has 24 bits, so the spacing of the values at
  exponent \<open>e\<close> is \<open>2 ^ (e - 23)\<close>; a result of magnitude \<open>2 ^ 128\<close> or more is an
  infinity.
\<close>

definition rnd :: "real \<Rightarrow> flt" where
  "rnd r = (let u = 2 powi (expo r - 23); q = u * of_int (rne (r / u))
            in if 2 ^ 128 \<le> q then PInf else if q \<le> - (2 ^ 128) then NInf else Fin q)"

fun f_neg :: "flt \<Rightarrow> flt" where
  "f_neg (Fin r) = Fin (- r)"
| "f_neg PInf = NInf"
| "f_neg NInf = PInf"
| "f_neg NaN = NaN"

fun f_add :: "flt \<Rightarrow> flt \<Rightarrow> flt" where
  "f_add (Fin r) (Fin s) = rnd (r + s)"
| "f_add NaN v = NaN"
| "f_add u NaN = NaN"
| "f_add PInf NInf = NaN"
| "f_add NInf PInf = NaN"
| "f_add PInf v = PInf"
| "f_add u PInf = PInf"
| "f_add NInf v = NInf"
| "f_add u NInf = NInf"

definition f_sub :: "flt \<Rightarrow> flt \<Rightarrow> flt" where
  "f_sub u v = f_add u (f_neg v)"

text \<open>The sign of a product or quotient with an infinite operand.\<close>

definition signed_inf :: "bool \<Rightarrow> flt" where
  "signed_inf positive = (if positive then PInf else NInf)"

fun f_mul :: "flt \<Rightarrow> flt \<Rightarrow> flt" where
  "f_mul (Fin r) (Fin s) = rnd (r * s)"
| "f_mul NaN v = NaN"
| "f_mul u NaN = NaN"
| "f_mul PInf (Fin s) = (if s = 0 then NaN else signed_inf (0 < s))"
| "f_mul NInf (Fin s) = (if s = 0 then NaN else signed_inf (s < 0))"
| "f_mul (Fin r) PInf = (if r = 0 then NaN else signed_inf (0 < r))"
| "f_mul (Fin r) NInf = (if r = 0 then NaN else signed_inf (r < 0))"
| "f_mul PInf PInf = PInf"
| "f_mul NInf NInf = PInf"
| "f_mul PInf NInf = NInf"
| "f_mul NInf PInf = NInf"

fun f_div :: "flt \<Rightarrow> flt \<Rightarrow> flt" where
  "f_div (Fin r) (Fin s) =
     (if s = 0 then (if r = 0 then NaN else signed_inf (0 < r)) else rnd (r / s))"
| "f_div NaN v = NaN"
| "f_div u NaN = NaN"
| "f_div (Fin r) PInf = Fin 0"
| "f_div (Fin r) NInf = Fin 0"
| "f_div PInf (Fin s) = signed_inf (0 \<le> s)"
| "f_div NInf (Fin s) = signed_inf (s < 0)"
| "f_div PInf PInf = NaN"
| "f_div PInf NInf = NaN"
| "f_div NInf PInf = NaN"
| "f_div NInf NInf = NaN"

fun f_sqrt :: "flt \<Rightarrow> flt" where
  "f_sqrt (Fin r) = (if r < 0 then NaN else rnd (sqrt r))"
| "f_sqrt PInf = PInf"
| "f_sqrt NInf = NaN"
| "f_sqrt NaN = NaN"

text \<open>The comparisons \<open><\<close> and \<open>==\<close>: false when an operand is a NaN.\<close>

fun f_lt :: "flt \<Rightarrow> flt \<Rightarrow> bool" where
  "f_lt (Fin r) (Fin s) = (r < s)"
| "f_lt NaN v = False"
| "f_lt u NaN = False"
| "f_lt u NInf = False"
| "f_lt PInf v = False"
| "f_lt NInf v = True"
| "f_lt u PInf = True"

fun f_eq :: "flt \<Rightarrow> flt \<Rightarrow> bool" where
  "f_eq (Fin r) (Fin s) = (r = s)"
| "f_eq PInf PInf = True"
| "f_eq NInf NInf = True"
| "f_eq u v = False"

subsection \<open>framework.h: vec3\<close>

text \<open>A stored vector, and a vector of computed binary32 values.\<close>

datatype vec3 = vec3 (x: real) (y: real) (z: real)

datatype vec3f = vec3f (fx: flt) (fy: flt) (fz: flt)

definition to_f :: "vec3 \<Rightarrow> vec3f" where
  "to_f v = vec3f (Fin (x v)) (Fin (y v)) (Fin (z v))"

definition of_f :: "vec3f \<Rightarrow> error + vec3" where
  "of_f v = (case (fx v, fy v, fz v) of
               (Fin r, Fin s, Fin t) \<Rightarrow> Inr (vec3 r s t)
             | _ \<Rightarrow> Inl NotFinite)"

definition vsub :: "vec3f \<Rightarrow> vec3f \<Rightarrow> vec3f" where
  \<comment> \<open>\<open>vec3::operator-(const vec3&)\<close>\<close>
  "vsub u v = vec3f (f_sub (fx u) (fx v)) (f_sub (fy u) (fy v)) (f_sub (fz u) (fz v))"

definition dot :: "vec3f \<Rightarrow> vec3f \<Rightarrow> flt" where
  "dot v1 v2 = f_add (f_add (f_mul (fx v1) (fx v2)) (f_mul (fy v1) (fy v2))) (f_mul (fz v1) (fz v2))"

definition length3 :: "vec3f \<Rightarrow> flt" where
  \<comment> \<open>\<open>length(const vec3&)\<close>\<close>
  "length3 v = f_sqrt (dot v v)"

definition cross :: "vec3f \<Rightarrow> vec3f \<Rightarrow> vec3f" where
  "cross v1 v2 =
     vec3f (f_sub (f_mul (fy v1) (fz v2)) (f_mul (fz v1) (fy v2)))
           (f_sub (f_mul (fz v1) (fx v2)) (f_mul (fx v1) (fz v2)))
           (f_sub (f_mul (fx v1) (fy v2)) (f_mul (fy v1) (fx v2)))"

subsection \<open>class Line\<close>

record Line =
  p1 :: vec3
  p2 :: vec3
  p3 :: vec3
  p4 :: vec3
  a :: real
  b :: real
  c :: real
  px :: real
  py :: real

text \<open>
  \<open>Line::Line(vec3 p1, vec3 p2)\<close>. The coefficients are assigned first, then the
  direction and the defining points, then the render endpoints from the stored \<open>b\<close>.
\<close>

definition Line_ctor :: "vec3 \<Rightarrow> vec3 \<Rightarrow> Line" where
  "Line_ctor q1 q2 =
     (let a0 = (if x q1 = x q2 then 1 else y q2 - y q1);
          b0 = (if x q1 = x q2 then 0 else x q1 - x q2);
          c0 = (if x q1 = x q2 then - x q1 else - a0 * x q1 - b0 * y q1)
      in \<lparr> p1 = q1, p2 = q2,
           p3 = (if b0 \<noteq> 0 then vec3 (- 1) ((- a0 * - 1 - c0) / b0) 1 else vec3 (x q1) (- 1) 1),
           p4 = (if b0 \<noteq> 0 then vec3 1 ((- a0 * 1 - c0) / b0) 1 else vec3 (x q1) 1 1),
           a = a0, b = b0, c = c0,
           px = x q2 - x q1, py = y q2 - y q1 \<rparr>)"

text \<open>The default constructor \<open>Line()\<close> on an object of static storage: every field is zero.\<close>

definition Line_default :: Line where
  "Line_default =
     \<lparr> p1 = vec3 0 0 0, p2 = vec3 0 0 0, p3 = vec3 0 0 0, p4 = vec3 0 0 0,
       a = 0, b = 0, c = 0, px = 0, py = 0 \<rparr>"

text \<open>
  \<open>Line::findIntersectionPoint\<close>, in binary32: the determinant is the rounded difference
  of two rounded products, and the test \<open>determinant == 0\<close> is on that value.
\<close>

definition findIntersectionPoint :: "Line \<Rightarrow> Line \<Rightarrow> vec3f" where
  "findIntersectionPoint this line2 =
     (let a1 = Fin (a this); b1 = Fin (b this); c1 = Fin (c this);
          a2 = Fin (a line2); b2 = Fin (b line2); c2 = Fin (c line2);
          determinant = f_sub (f_mul a1 b2) (f_mul a2 b1)
      in if f_eq determinant (Fin 0) then vec3f (Fin 0) (Fin 0) (Fin 1)
         else vec3f (f_div (f_sub (f_mul b1 c2) (f_mul b2 c1)) determinant)
                    (f_div (f_sub (f_mul a2 c1) (f_mul a1 c2)) determinant) (Fin 1))"

text \<open>
  \<open>Line::move\<close>. The four setter calls each divide by \<open>b\<close>, with no guard; \<open>newC\<close> is a
  local variable and the field \<open>c\<close> is not assigned.
\<close>

definition move :: "Line \<Rightarrow> vec3 \<Rightarrow> error + Line" where
  "move this clickP =
     (let a0 = a this; b0 = b this;
          newC = - a0 * x clickP - b0 * y clickP
      in case fdiv (- a0 * - 1 - newC) b0 of Inl e \<Rightarrow> Inl e | Inr y1 \<Rightarrow>
         case fdiv (- a0 * 1 - newC) b0 of Inl e \<Rightarrow> Inl e | Inr y2 \<Rightarrow>
         case fdiv (- a0 * - 1 - newC) b0 of Inl e \<Rightarrow> Inl e | Inr y3 \<Rightarrow>
         case fdiv (- a0 * 1 - newC) b0 of Inl e \<Rightarrow> Inl e | Inr y4 \<Rightarrow>
           Inr (this\<lparr> p1 := vec3 (- 1) y1 1, p2 := vec3 1 y2 1,
                       p3 := vec3 (- 1) y3 1, p4 := vec3 1 y4 1 \<rparr>))"

text \<open>A point lies on the line \<open>a0 x + b0 y + c0 = 0\<close>.\<close>

definition on_line :: "real \<Rightarrow> real \<Rightarrow> real \<Rightarrow> vec3 \<Rightarrow> bool" where
  "on_line a0 b0 c0 q = (a0 * x q + b0 * y q + c0 = 0)"

subsection \<open>class PointCollection\<close>

text \<open>
  The distance that \<open>searchNearestP\<close> computes between the query and a stored point:
  \<open>sqrt((pos.x - q.x) * (pos.x - q.x) + (pos.y - q.y) * (pos.y - q.y))\<close> in binary32.
\<close>

definition dist_f :: "vec3 \<Rightarrow> vec3 \<Rightarrow> flt" where
  "dist_f pos q =
     f_sqrt (f_add (f_mul (f_sub (Fin (x pos)) (Fin (x q))) (f_sub (Fin (x pos)) (Fin (x q))))
                   (f_mul (f_sub (Fin (y pos)) (Fin (y q))) (f_sub (Fin (y pos)) (Fin (y q)))))"

text \<open>
  \<open>PointCollection::searchNearestP\<close>. The loop over the indices \<open>1 .. size - 1\<close> is
  the recursion over the elements after the first; \<open>minD\<close> and \<open>est\<close> are the loop's
  two variables.
\<close>

fun searchNearestP_loop :: "vec3 \<Rightarrow> vec3 list \<Rightarrow> flt \<Rightarrow> vec3 \<Rightarrow> vec3" where
  "searchNearestP_loop pos [] minD est = est"
| "searchNearestP_loop pos (q # qs) minD est =
     (let d = dist_f pos q
      in if f_lt d minD then searchNearestP_loop pos qs d q
         else searchNearestP_loop pos qs minD est)"

definition searchNearestP :: "vec3 list \<Rightarrow> vec3 \<Rightarrow> vec3" where
  "searchNearestP Vtx pos =
     (case Vtx of
        [] \<Rightarrow> vec3 0 0 1
      | est # rest \<Rightarrow> searchNearestP_loop pos rest (dist_f pos est) est)"

subsection \<open>class LineCollection: the nearest-line query\<close>

text \<open>
  The literal \<open>0.01\<close> of the comparison \<open>distanceLine < 0.01\<close> is a \<open>double\<close>: the float
  is compared with the binary64 number nearest to \<open>1/100\<close>.
\<close>

definition threshold :: real where
  "threshold = 5764607523034235 / 2 ^ 59"

text \<open>
  \<open>LineCollection::findNearestLine\<close>, the loop \<open>for (i = 0; i < size; i += 4)\<close>, with
  the vector operations of \<open>framework.h\<close> in binary32. A quotient that is a NaN or an
  infinity fails both comparisons.
\<close>

function findNearestLine_loop :: "vec3 list \<Rightarrow> vec3 \<Rightarrow> nat \<Rightarrow> flt \<Rightarrow> int \<Rightarrow> error + int" where
  "findNearestLine_loop Vtx clickP i minDistance nearestLine =
     (if i < length Vtx then
        (case vtx_at Vtx (int i) of Inl e \<Rightarrow> Inl e | Inr firstPoint \<Rightarrow>
         case vtx_at Vtx (int i + 1) of Inl e \<Rightarrow> Inl e | Inr secPoint \<Rightarrow>
           (let lineVector = vsub (to_f secPoint) (to_f firstPoint);
                pointVector = vsub (to_f clickP) (to_f firstPoint);
                distanceLine = f_div (length3 (cross lineVector pointVector)) (length3 lineVector)
            in if f_lt distanceLine minDistance \<and> f_lt distanceLine (Fin threshold)
               then findNearestLine_loop Vtx clickP (i + 4) distanceLine (int i)
               else findNearestLine_loop Vtx clickP (i + 4) minDistance nearestLine))
      else Inr nearestLine)"
  by pat_completeness auto
termination
  by (relation "measure (\<lambda>(Vtx, clickP, i, minDistance, nearestLine). length Vtx - i)") auto

declare findNearestLine_loop.simps [simp del]

definition findNearestLine :: "vec3 list \<Rightarrow> vec3 \<Rightarrow> error + int" where
  "findNearestLine Vtx clickP = findNearestLine_loop Vtx clickP 0 (Fin 20) (- 1)"

subsection \<open>The global variables and the registries' operations\<close>

text \<open>
  \<open>enum Key { p, l, m, i }\<close>; the constructors carry a prefix, since the one-letter
  names are needed for variables.
\<close>

datatype Key = Key_p | Key_l | Key_m | Key_i

text \<open>
  The global variables of the program. \<open>points\<close> is the vertex vector of the point
  registry; \<open>lines\<close>, \<open>firstCLick\<close> and \<open>startPoint\<close> are the members of the line
  registry (its private, unused member \<open>firstClick\<close> is left out).
\<close>

record globals =
  points :: "vec3 list"
  lines :: "vec3 list"
  firstCLick :: bool
  startPoint :: vec3
  current :: Key
  l1 :: Line
  l2 :: Line
  moved :: Line
  idx :: int
  firstLine :: bool

definition windowWidth :: real where "windowWidth = 600"
definition windowHeight :: real where "windowHeight = 600"

text \<open>The state after \<open>onInitialization\<close>: objects of static storage are zero.\<close>

definition onInitialization :: globals where
  "onInitialization =
     \<lparr> points = [], lines = [], firstCLick = False, startPoint = vec3 0 0 0,
       current = Key_p, l1 = Line_default, l2 = Line_default, moved = Line_default,
       idx = 0, firstLine = False \<rparr>"

definition size_points :: "globals \<Rightarrow> int" where
  \<comment> \<open>\<open>PointCollection::size\<close>\<close>
  "size_points g = int (length (points g))"

definition addPoint :: "vec3 \<Rightarrow> globals \<Rightarrow> globals" where
  "addPoint q g = g\<lparr> points := points g @ [q] \<rparr>"

definition addLine :: "Line \<Rightarrow> globals \<Rightarrow> globals" where
  "addLine line g = g\<lparr> lines := lines g @ [p1 line, p2 line, p3 line, p4 line] \<rparr>"

definition startDrawing :: "vec3 \<Rightarrow> globals \<Rightarrow> globals" where
  "startDrawing q g = g\<lparr> firstCLick := True, startPoint := q \<rparr>"

definition finishDrawing :: "vec3 \<Rightarrow> globals \<Rightarrow> globals" where
  "finishDrawing endPoint g =
     (let g1 = g\<lparr> firstCLick := False \<rparr> in addLine (Line_ctor (startPoint g1) endPoint) g1)"

definition isFirst :: "globals \<Rightarrow> bool" where
  "isFirst g = firstCLick g"

subsection \<open>The event handlers\<close>

definition onKeyboard :: "char \<Rightarrow> globals \<Rightarrow> globals" where
  "onKeyboard key g =
     (let g1 = (if key = CHR ''p'' then g\<lparr> current := Key_p \<rparr> else g);
          g2 = (if key = CHR ''l'' then g1\<lparr> current := Key_l \<rparr> else g1);
          g3 = (if key = CHR ''m'' then g2\<lparr> current := Key_m \<rparr> else g2)
      in if key = CHR ''i'' then g3\<lparr> current := Key_i \<rparr> else g3)"

definition onKeyboardUp :: "char \<Rightarrow> globals \<Rightarrow> globals" where
  "onKeyboardUp key g =
     (let g1 = (if key = CHR ''p'' then g\<lparr> current := Key_p \<rparr> else g);
          g2 = (if key = CHR ''l'' then g1\<lparr> current := Key_l \<rparr> else g1);
          g3 = (if key = CHR ''m'' then g2\<lparr> current := Key_m \<rparr> else g2)
      in if key = CHR ''i'' then g3\<lparr> current := Key_i \<rparr> else g3)"

text \<open>
  The conversion of a pixel to the world frame, \<open>2.0f * pX / windowWidth - 1\<close> and
  \<open>1.0f - 2.0f * pY / windowHeight\<close>, in binary32, and the position \<open>vec3(cX, cY, 1)\<close>
  that the handlers pass on. It is finite for every pixel a window can have.
\<close>

definition cX_of :: "int \<Rightarrow> flt" where
  "cX_of pX = f_sub (f_div (f_mul (Fin 2) (rnd (of_int pX))) (rnd windowWidth)) (Fin 1)"

definition cY_of :: "int \<Rightarrow> flt" where
  "cY_of pY = f_sub (Fin 1) (f_div (f_mul (Fin 2) (rnd (of_int pY))) (rnd windowHeight))"

definition cursor :: "int \<Rightarrow> int \<Rightarrow> error + vec3" where
  "cursor pX pY = of_f (vec3f (cX_of pX) (cY_of pY) (Fin 1))"

text \<open>
  \<open>onMouseMotion\<close>. The chained assignment \<open>Vtx[idx] = Vtx[idx + 2] = moved.getP1()\<close>
  writes slot \<open>idx + 2\<close>, then slot \<open>idx\<close>.
\<close>

definition onMouseMotion :: "int \<Rightarrow> int \<Rightarrow> globals \<Rightarrow> error + globals" where
  "onMouseMotion pX pY g =
     (if idx g \<noteq> - 1 \<and> current g = Key_m then
        (case cursor pX pY of Inl e \<Rightarrow> Inl e | Inr clickP \<Rightarrow>
         case move (moved g) clickP of Inl e \<Rightarrow> Inl e | Inr mv \<Rightarrow>
         case vtx_put (lines g) (idx g + 2) (p1 mv) of Inl e \<Rightarrow> Inl e | Inr v1 \<Rightarrow>
         case vtx_put v1 (idx g) (p1 mv) of Inl e \<Rightarrow> Inl e | Inr v2 \<Rightarrow>
         case vtx_put v2 (idx g + 3) (p2 mv) of Inl e \<Rightarrow> Inl e | Inr v3 \<Rightarrow>
         case vtx_put v3 (idx g + 1) (p2 mv) of Inl e \<Rightarrow> Inl e | Inr v4 \<Rightarrow>
           Inr (g\<lparr> moved := mv, lines := v4 \<rparr>))
      else Inr g)"

datatype Button = GLUT_LEFT_BUTTON | GLUT_MIDDLE_BUTTON | GLUT_RIGHT_BUTTON | OTHER_BUTTON

datatype ButtonState = GLUT_DOWN | GLUT_UP

text \<open>
  \<open>onMouse\<close>, left button: the four \<open>if\<close> statements of the handler, one definition
  each, run in the order of the source.
\<close>

definition onMouse_p :: "ButtonState \<Rightarrow> int \<Rightarrow> int \<Rightarrow> globals \<Rightarrow> error + globals" where
  "onMouse_p st pX pY g =
     (if current g = Key_p \<and> st = GLUT_DOWN then
        (case cursor pX pY of Inl e \<Rightarrow> Inl e | Inr pos \<Rightarrow> Inr (addPoint pos g))
      else Inr g)"

definition onMouse_l :: "ButtonState \<Rightarrow> int \<Rightarrow> int \<Rightarrow> globals \<Rightarrow> error + globals" where
  "onMouse_l st pX pY g =
     (if current g = Key_l \<and> st = GLUT_DOWN \<and> size_points g \<ge> 2 then
        (case cursor pX pY of Inl e \<Rightarrow> Inl e | Inr pos \<Rightarrow>
           if \<not> isFirst g then Inr (startDrawing (searchNearestP (points g) pos) g)
           else Inr (finishDrawing (searchNearestP (points g) pos) g))
      else Inr g)"

definition onMouse_i :: "ButtonState \<Rightarrow> int \<Rightarrow> int \<Rightarrow> globals \<Rightarrow> error + globals" where
  "onMouse_i st pX pY g =
     (if current g = Key_i \<and> st = GLUT_DOWN then
        (case cursor pX pY of Inl e \<Rightarrow> Inl e | Inr clickPos \<Rightarrow>
         case findNearestLine (lines g) clickPos of Inl e \<Rightarrow> Inl e | Inr k \<Rightarrow>
           (let g1 = g\<lparr> idx := k \<rparr> in
            if idx g1 \<noteq> - 1 then
              (if \<not> firstLine g1 then
                 (case vtx_at (lines g1) (idx g1) of Inl e \<Rightarrow> Inl e | Inr u \<Rightarrow>
                  case vtx_at (lines g1) (idx g1 + 1) of Inl e \<Rightarrow> Inl e | Inr v \<Rightarrow>
                    Inr (g1\<lparr> l1 := Line_ctor u v, firstLine := True \<rparr>))
               else
                 (case vtx_at (lines g1) (idx g1) of Inl e \<Rightarrow> Inl e | Inr u \<Rightarrow>
                  case vtx_at (lines g1) (idx g1 + 1) of Inl e \<Rightarrow> Inl e | Inr v \<Rightarrow>
                    (let g2 = g1\<lparr> l2 := Line_ctor u v \<rparr> in
                     case of_f (findIntersectionPoint (l1 g2) (l2 g2)) of
                       Inl e \<Rightarrow> Inl e
                     | Inr q \<Rightarrow>
                         (let g3 = addPoint q g2;
                              g4 = g3\<lparr> l2 := Line_ctor (vec3 0 0 0) (vec3 0 0 0) \<rparr>;
                              g5 = g4\<lparr> l1 := l2 g4 \<rparr>
                          in Inr (g5\<lparr> firstLine := False, idx := - 1 \<rparr>)))))
            else Inr g1))
      else Inr g)"

definition onMouse_m :: "ButtonState \<Rightarrow> int \<Rightarrow> int \<Rightarrow> globals \<Rightarrow> error + globals" where
  "onMouse_m st pX pY g =
     (if current g = Key_m \<and> st = GLUT_DOWN then
        (case cursor pX pY of Inl e \<Rightarrow> Inl e | Inr pos \<Rightarrow>
         case findNearestLine (lines g) pos of Inl e \<Rightarrow> Inl e | Inr k \<Rightarrow>
           (let g1 = g\<lparr> idx := k \<rparr> in
            case vtx_at (lines g1) (idx g1) of Inl e \<Rightarrow> Inl e | Inr u \<Rightarrow>
            case vtx_at (lines g1) (idx g1 + 1) of Inl e \<Rightarrow> Inl e | Inr v \<Rightarrow>
              Inr (g1\<lparr> moved := Line_ctor u v \<rparr>)))
      else if current g = Key_m \<and> st \<noteq> GLUT_DOWN then
        Inr (g\<lparr> idx := - 1, moved := Line_ctor (vec3 0 0 0) (vec3 0 0 0) \<rparr>)
      else Inr g)"

definition onMouse :: "Button \<Rightarrow> ButtonState \<Rightarrow> int \<Rightarrow> int \<Rightarrow> globals \<Rightarrow> error + globals" where
  "onMouse button st pX pY g =
     (case button of
        GLUT_LEFT_BUTTON \<Rightarrow>
          (case onMouse_p st pX pY g of Inl e \<Rightarrow> Inl e | Inr g1 \<Rightarrow>
           case onMouse_l st pX pY g1 of Inl e \<Rightarrow> Inl e | Inr g2 \<Rightarrow>
           case onMouse_i st pX pY g2 of Inl e \<Rightarrow> Inl e | Inr g3 \<Rightarrow>
             onMouse_m st pX pY g3)
      | GLUT_MIDDLE_BUTTON \<Rightarrow> Inr g
      | GLUT_RIGHT_BUTTON \<Rightarrow> Inr g
      | OTHER_BUTTON \<Rightarrow> Inr g)"

subsection \<open>The input interface: sequences of events\<close>

datatype event =
    Keyboard char
  | KeyboardUp char
  | Mouse Button ButtonState int int
  | MouseMotion int int

fun dispatch :: "event \<Rightarrow> globals \<Rightarrow> error + globals" where
  "dispatch (Keyboard key) g = Inr (onKeyboard key g)"
| "dispatch (KeyboardUp key) g = Inr (onKeyboardUp key g)"
| "dispatch (Mouse button st pX pY) g = onMouse button st pX pY g"
| "dispatch (MouseMotion pX pY) g = onMouseMotion pX pY g"

text \<open>The event loop on a finite sequence of events; it stops at the first error.\<close>

fun run :: "event list \<Rightarrow> globals \<Rightarrow> error + globals" where
  "run [] g = Inr g"
| "run (ev # evs) g = (case dispatch ev g of Inl e \<Rightarrow> Inl e | Inr g' \<Rightarrow> run evs g')"


subsection \<open>The drag in binary32\<close>

text \<open>
  A line whose fields are binary32 values, and \<open>Line::move\<close> on it: \<open>newC\<close> and the four
  y-coordinates are computed in binary32, the division by \<open>b\<close> included, so that a
  vertical line gets infinite or NaN y-coordinates. The fields \<open>a\<close>, \<open>b\<close>, \<open>c\<close> are not
  assigned.
\<close>

record Line_f =
  p1_f :: vec3f
  p2_f :: vec3f
  p3_f :: vec3f
  p4_f :: vec3f
  a_f :: flt
  b_f :: flt
  c_f :: flt
  px_f :: flt
  py_f :: flt

definition move_f :: "Line_f \<Rightarrow> vec3f \<Rightarrow> Line_f" where
  "move_f this clickP =
     (let a0 = a_f this; b0 = b_f this;
          newC = f_sub (f_mul (f_neg a0) (fx clickP)) (f_mul b0 (fy clickP))
      in this\<lparr> p1_f := vec3f (Fin (- 1)) (f_div (f_sub (f_mul (f_neg a0) (Fin (- 1))) newC) b0) (Fin 1),
               p2_f := vec3f (Fin 1) (f_div (f_sub (f_mul (f_neg a0) (Fin 1)) newC) b0) (Fin 1),
               p3_f := vec3f (Fin (- 1)) (f_div (f_sub (f_mul (f_neg a0) (Fin (- 1))) newC) b0) (Fin 1),
               p4_f := vec3f (Fin 1) (f_div (f_sub (f_mul (f_neg a0) (Fin 1)) newC) b0) (Fin 1) \<rparr>)"

text \<open>
  The global variables that \<open>onMouseMotion\<close> reads and writes, the vertex vector of the
  line registry holding binary32 values.
\<close>

record globals_f =
  current_f :: Key
  idx_f :: int
  moved_f :: Line_f
  lines_f :: "vec3f list"

text \<open>
  The position \<open>vec3(cX, cY, 1)\<close> of a motion event at the pixel \<open>(pX, pY)\<close>.
\<close>

definition cursor_f :: "int \<times> int \<Rightarrow> vec3f" where
  "cursor_f m = vec3f (cX_of (fst m)) (cY_of (snd m)) (Fin 1)"

text \<open>
  \<open>onMouseMotion\<close> on that state, with the same order of the four writes, and a
  sequence of motion events.
\<close>

definition onMouseMotion_f :: "int \<times> int \<Rightarrow> globals_f \<Rightarrow> error + globals_f" where
  "onMouseMotion_f m g =
     (if idx_f g \<noteq> - 1 \<and> current_f g = Key_m then
        (let mv = move_f (moved_f g) (cursor_f m) in
         case vtx_put (lines_f g) (idx_f g + 2) (p1_f mv) of Inl e \<Rightarrow> Inl e | Inr v1 \<Rightarrow>
         case vtx_put v1 (idx_f g) (p1_f mv) of Inl e \<Rightarrow> Inl e | Inr v2 \<Rightarrow>
         case vtx_put v2 (idx_f g + 3) (p2_f mv) of Inl e \<Rightarrow> Inl e | Inr v3 \<Rightarrow>
         case vtx_put v3 (idx_f g + 1) (p2_f mv) of Inl e \<Rightarrow> Inl e | Inr v4 \<Rightarrow>
           Inr (g\<lparr> moved_f := mv, lines_f := v4 \<rparr>))
      else Inr g)"


text \<open>
  The binary32 state of a state whose stored values are finite.
\<close>

definition to_Line_f :: "Line \<Rightarrow> Line_f" where
  "to_Line_f k =
     \<lparr> p1_f = to_f (p1 k), p2_f = to_f (p2 k), p3_f = to_f (p3 k), p4_f = to_f (p4 k),
       a_f = Fin (a k), b_f = Fin (b k), c_f = Fin (c k), px_f = Fin (px k), py_f = Fin (py k) \<rparr>"

definition to_globals_f :: "globals \<Rightarrow> globals_f" where
  "to_globals_f g =
     \<lparr> current_f = current g, idx_f = idx g, moved_f = to_Line_f (moved g),
       lines_f = map to_f (lines g) \<rparr>"

subsection \<open>Specification vocabulary\<close>

text \<open>
  A real number is exact when rounding to binary32 leaves it unchanged. \<open>cramer_exact\<close>
  says that none of the eleven operations of \<open>findIntersectionPoint\<close> rounds: the
  computation is the one of exact arithmetic.
\<close>

definition exact :: "real \<Rightarrow> bool" where
  "exact r \<longleftrightarrow> rnd r = Fin r"

definition cramer_exact :: "Line \<Rightarrow> Line \<Rightarrow> bool" where
  "cramer_exact k1 k2 \<longleftrightarrow>
     exact (a k1 * b k2) \<and> exact (a k2 * b k1) \<and> exact (a k1 * b k2 - a k2 * b k1) \<and>
     exact (b k1 * c k2) \<and> exact (b k2 * c k1) \<and> exact (b k1 * c k2 - b k2 * c k1) \<and>
     exact (a k2 * c k1) \<and> exact (a k1 * c k2) \<and> exact (a k2 * c k1 - a k1 * c k2) \<and>
     exact ((b k1 * c k2 - b k2 * c k1) / (a k1 * b k2 - a k2 * b k1)) \<and>
     exact ((a k2 * c k1 - a k1 * c k2) / (a k1 * b k2 - a k2 * b k1))"

text \<open>
  A computed value that is an infinity or a non-negative number.
\<close>

definition nonneg_f :: "flt \<Rightarrow> bool" where
  "nonneg_f v \<longleftrightarrow> v = PInf \<or> (\<exists>s\<ge>0. v = Fin s)"

text \<open>
  The Euclidean distance in the plane between a query position and a point, as a real number.
\<close>

definition distP :: "vec3 \<Rightarrow> vec3 \<Rightarrow> real" where
  "distP pos q = sqrt ((x pos - x q) * (x pos - x q) + (y pos - y q) * (y pos - y q))"

text \<open>
  Index \<open>k\<close> holds the first minimum of the computed distances to \<open>pos\<close>: no element
  has a smaller computed distance, and every earlier element has a greater one.
\<close>

definition first_min :: "vec3 \<Rightarrow> vec3 list \<Rightarrow> nat \<Rightarrow> bool" where
  "first_min pos v k \<longleftrightarrow>
     k < length v \<and>
     (\<forall>q \<in> set v. \<not> f_lt (dist_f pos q) (dist_f pos (v ! k))) \<and>
     (\<forall>q \<in> set (take k v). f_lt (dist_f pos (v ! k)) (dist_f pos q))"

text \<open>
  The distance that \<open>findNearestLine\<close> computes for the stored line whose four slots
  start at index \<open>j\<close>: \<open>length(cross(lineVector, pointVector)) / length(lineVector)\<close>
  in binary32.
\<close>

definition slot_distance :: "vec3 list \<Rightarrow> vec3 \<Rightarrow> nat \<Rightarrow> flt" where
  "slot_distance Vtx pos j =
     (let lineVector = vsub (to_f (Vtx ! (j + 1))) (to_f (Vtx ! j));
          pointVector = vsub (to_f pos) (to_f (Vtx ! j))
      in f_div (length3 (cross lineVector pointVector)) (length3 lineVector))"

text \<open>
  The stored line at slot \<open>j\<close> qualifies for selection: its computed distance is below
  the cap 20 and below the threshold. A NaN or an infinite distance does not qualify.
\<close>

definition selectable :: "vec3 list \<Rightarrow> vec3 \<Rightarrow> nat \<Rightarrow> bool" where
  "selectable Vtx pos j \<longleftrightarrow>
     f_lt (slot_distance Vtx pos j) (Fin 20) \<and> f_lt (slot_distance Vtx pos j) (Fin threshold)"

text \<open>
  No slot before \<open>i\<close> holds a qualifying line.
\<close>

definition none_before :: "vec3 list \<Rightarrow> vec3 \<Rightarrow> nat \<Rightarrow> bool" where
  "none_before Vtx pos i \<longleftrightarrow> (\<forall>j<i. 4 dvd j \<longrightarrow> \<not> selectable Vtx pos j)"

text \<open>
  Slot \<open>j\<close> holds the first qualifying line of minimal computed distance among the
  slots before \<open>i\<close>.
\<close>

definition best_before :: "vec3 list \<Rightarrow> vec3 \<Rightarrow> nat \<Rightarrow> nat \<Rightarrow> bool" where
  "best_before Vtx pos i j \<longleftrightarrow>
     j < i \<and> 4 dvd j \<and> selectable Vtx pos j \<and>
     (\<forall>j'<i. 4 dvd j' \<and> selectable Vtx pos j' \<longrightarrow>
        \<not> f_lt (slot_distance Vtx pos j') (slot_distance Vtx pos j)) \<and>
     (\<forall>j'<j. 4 dvd j' \<and> selectable Vtx pos j' \<longrightarrow>
        f_lt (slot_distance Vtx pos j) (slot_distance Vtx pos j'))"

text \<open>
  The two variables of the scan, before slot \<open>i\<close>.
\<close>

definition scanned :: "vec3 list \<Rightarrow> vec3 \<Rightarrow> nat \<Rightarrow> flt \<Rightarrow> int \<Rightarrow> bool" where
  "scanned Vtx pos i minDistance nearestLine \<longleftrightarrow>
     (nearestLine = - 1 \<and> minDistance = Fin 20 \<and> none_before Vtx pos i)
     \<or> (\<exists>j. nearestLine = int j \<and> minDistance = slot_distance Vtx pos j \<and>
              best_before Vtx pos i j)"

text \<open>
  The distance from \<open>pos\<close> to the line through \<open>q1\<close> and \<open>q2\<close> as a real number: the
  value of \<open>|cross(direction, pos - q1)| / |direction|\<close> for points of equal \<open>z\<close>.
\<close>

definition perp_distance :: "vec3 \<Rightarrow> vec3 \<Rightarrow> vec3 \<Rightarrow> real" where
  "perp_distance q1 q2 pos =
     \<bar>(x q2 - x q1) * (y pos - y q1) - (y q2 - y q1) * (x pos - x q1)\<bar>
       / sqrt ((x q2 - x q1) * (x q2 - x q1) + (y q2 - y q1) * (y q2 - y q1))"

text \<open>
  A line registry with two stored lines: the line through \<open>(0, 0)\<close> and \<open>(1, 0)\<close> in
  slots 0 to 3 and the line through \<open>(0, 0)\<close> and \<open>(0, 1)\<close> in slots 4 to 7, each with
  the render endpoints its constructor computes.
\<close>

definition axes_registry :: "vec3 list" where
  "axes_registry =
     [vec3 0 0 1, vec3 1 0 1, vec3 (- 1) 0 1, vec3 1 0 1,
      vec3 0 0 1, vec3 0 1 1, vec3 0 (- 1) 1, vec3 0 1 1]"

text \<open>
  A line registry whose second line, through \<open>(0, 0)\<close> and \<open>(1, 2^-13)\<close>, is tilted so
  little that binary32 cannot tell the length of its direction from 1.
\<close>

definition near_tie_registry :: "vec3 list" where
  "near_tie_registry =
     [vec3 0 0 1, vec3 1 0 1, vec3 (- 1) 0 1, vec3 1 0 1,
      vec3 0 0 1, vec3 1 (1 / 8192) 1, vec3 (- 1) (- (1 / 8192)) 1, vec3 1 (1 / 8192) 1]"

text \<open>A pending line start exists only when at least two points are stored.\<close>

definition pending_ok :: "globals \<Rightarrow> bool" where
  "pending_ok g \<longleftrightarrow> (firstCLick g \<longrightarrow> 2 \<le> length (points g))"

text \<open>The line registry holds whole lines: four slots each.\<close>

definition whole_lines :: "globals \<Rightarrow> bool" where
  "whole_lines g \<longleftrightarrow> length (lines g) mod 4 = 0"

text \<open>
  An input sequence: two points placed at the pixels \<open>(150, 300)\<close> and \<open>(450, 300)\<close>,
  that is at \<open>(-1/2, 0)\<close> and \<open>(1/2, 0)\<close>, then a line drawn from the first to the
  second with presses near them, at the pixels \<open>(225, 300)\<close> and \<open>(375, 300)\<close>.
\<close>

definition place_two_points :: "event list" where
  "place_two_points =
     [Mouse GLUT_LEFT_BUTTON GLUT_DOWN 150 300, Mouse GLUT_LEFT_BUTTON GLUT_UP 150 300,
      Mouse GLUT_LEFT_BUTTON GLUT_DOWN 450 300, Mouse GLUT_LEFT_BUTTON GLUT_UP 450 300]"

definition draw_horizontal :: "event list" where
  "draw_horizontal =
     place_two_points @
     [Keyboard CHR ''l'',
      Mouse GLUT_LEFT_BUTTON GLUT_DOWN 225 300, Mouse GLUT_LEFT_BUTTON GLUT_UP 225 300,
      Mouse GLUT_LEFT_BUTTON GLUT_DOWN 375 300, Mouse GLUT_LEFT_BUTTON GLUT_UP 375 300]"

text \<open>
  The states that the sequences above reach: after the two points and the key \<open>l\<close>;
  after the line is drawn and the key \<open>m\<close> is pressed.
\<close>

definition two_points_state :: globals where
  "two_points_state =
     onInitialization\<lparr> points := [vec3 (- (1 / 2)) 0 1, vec3 (1 / 2) 0 1], current := Key_l \<rparr>"

definition one_line_state :: globals where
  "one_line_state =
     onInitialization
       \<lparr> points := [vec3 (- (1 / 2)) 0 1, vec3 (1 / 2) 0 1],
         lines := [vec3 (- (1 / 2)) 0 1, vec3 (1 / 2) 0 1, vec3 (- 1) 0 1, vec3 1 0 1],
         startPoint := vec3 (- (1 / 2)) 0 1, current := Key_m \<rparr>"



text \<open>
  The state after a press on the horizontal line at the pixel \<open>(300, 300)\<close>, which
  selects it for dragging.
\<close>

definition dragging_state :: globals where
  "dragging_state =
     one_line_state\<lparr> idx := 0, moved := Line_ctor (vec3 (- (1 / 2)) 0 1) (vec3 (1 / 2) 0 1) \<rparr>"

text \<open>
  The same with a vertical line: points at the pixels \<open>(300, 150)\<close> and \<open>(300, 450)\<close>,
  that is at \<open>(0, 1/2)\<close> and \<open>(0, -1/2)\<close>, the line between them, and the state after
  the key \<open>m\<close> and a press on the line.
\<close>

definition draw_vertical :: "event list" where
  "draw_vertical =
     [Mouse GLUT_LEFT_BUTTON GLUT_DOWN 300 150, Mouse GLUT_LEFT_BUTTON GLUT_DOWN 300 450,
      Keyboard CHR ''l'',
      Mouse GLUT_LEFT_BUTTON GLUT_DOWN 300 150, Mouse GLUT_LEFT_BUTTON GLUT_DOWN 300 450]"

definition vertical_points_state :: globals where
  "vertical_points_state =
     onInitialization\<lparr> points := [vec3 0 (1 / 2) 1, vec3 0 (- (1 / 2)) 1], current := Key_l \<rparr>"

definition vertical_drag_state :: globals where
  "vertical_drag_state =
     onInitialization
       \<lparr> points := [vec3 0 (1 / 2) 1, vec3 0 (- (1 / 2)) 1],
         lines := [vec3 0 (1 / 2) 1, vec3 0 (- (1 / 2)) 1, vec3 0 (- 1) 1, vec3 0 1 1],
         startPoint := vec3 0 (1 / 2) 1, current := Key_m,
         moved := Line_ctor (vec3 0 (1 / 2) 1) (vec3 0 (- (1 / 2)) 1) \<rparr>"

section \<open>Properties\<close>

subsection \<open>Binary32 arithmetic\<close>

text \<open>
  The exponent search finds the binade of a magnitude, so that a rounding can be
  evaluated from the binade alone (\<open>rnd_unfold\<close>).
\<close>

lemma expo_from_eq:
  assumes "e0 \<le> e" and "r < 2 powi (e + 1)" and "e0 < e \<Longrightarrow> 2 powi e \<le> r"
    and "nat (e - e0) \<le> n"
  shows "expo_from n e0 r = e"
  using assms
proof (induction n arbitrary: e0)
  case 0
  then show ?case by simp
next
  case (Suc n)
  show ?case
  proof (cases "r < 2 powi (e0 + 1)")
    case True
    have "e0 = e"
    proof (rule ccontr)
      assume "e0 \<noteq> e"
      then have lt: "e0 < e" using Suc.prems(1) by simp
      then have "(2::real) powi (e0 + 1) \<le> 2 powi e"
        by (intro power_int_increasing) auto
      then show False using Suc.prems(3) [OF lt] True by linarith
    qed
    then show ?thesis using True by simp
  next
    case False
    have lt: "e0 < e"
    proof (rule ccontr)
      assume "\<not> e0 < e"
      then have "e0 = e" using Suc.prems(1) by simp
      then show False using False Suc.prems(2) by simp
    qed
    have "expo_from n (e0 + 1) r = e"
    proof (rule Suc.IH)
      show "e0 + 1 \<le> e" using lt by simp
      show "r < 2 powi (e + 1)" by (rule Suc.prems(2))
      show "2 powi e \<le> r" if "e0 + 1 < e" using Suc.prems(3) [OF lt] .
      show "nat (e - (e0 + 1)) \<le> n" using Suc.prems(4) lt by simp
    qed
    then show ?thesis using False by simp
  qed
qed

lemma expo_eq:
  assumes "2 powi e \<le> \<bar>r\<bar>" and "\<bar>r\<bar> < 2 powi (e + 1)" and "- 126 \<le> e" and "e \<le> 128"
  shows "expo r = e"
  unfolding expo_def
  by (rule expo_from_eq) (use assms in auto)

lemma rnd_unfold:
  assumes "2 powi e \<le> \<bar>r\<bar>" and "\<bar>r\<bar> < 2 powi (e + 1)" and "- 126 \<le> e" and "e \<le> 128"
  shows "rnd r = (let u = 2 powi (e - 23); q = u * of_int (rne (r / u))
            in if 2 ^ 128 \<le> q then PInf else if q \<le> - (2 ^ 128) then NInf else Fin q)"
  by (simp add: rnd_def expo_eq [OF assms])

lemma rnd_zero [simp]: "rnd 0 = Fin 0"
  by (simp add: rnd_def rne_def)

lemma rnd_not_NaN [simp]: "rnd r \<noteq> NaN"
  by (simp add: rnd_def Let_def)

lemma rne_nonneg: "0 \<le> t \<Longrightarrow> 0 \<le> rne t"
  by (auto simp: rne_def Let_def)

lemma rnd_nonneg: "0 \<le> r \<Longrightarrow> nonneg_f (rnd r)"
proof -
  assume r: "0 \<le> r"
  let ?u = "(2::real) powi (expo r - 23)"
  have u: "0 < ?u" by simp
  then have "0 \<le> r / ?u" using r by simp
  then have "0 \<le> rne (r / ?u)" by (rule rne_nonneg)
  then have q: "0 \<le> ?u * of_int (rne (r / ?u))" using u by simp
  show ?thesis
    using q by (auto simp: rnd_def Let_def nonneg_f_def)
qed

lemma f_lt_irrefl [simp]: "\<not> f_lt u u"
  by (cases u) simp_all

lemma f_lt_trans: "f_lt u v \<Longrightarrow> f_lt v w \<Longrightarrow> f_lt u w"
  by (cases u; cases v; cases w) simp_all

lemma f_lt_cover: "f_lt u v \<Longrightarrow> \<not> f_lt w v \<Longrightarrow> w \<noteq> NaN \<Longrightarrow> f_lt u w"
  by (cases u; cases v; cases w) simp_all

lemma f_lt_not_NaN: "f_lt u v \<Longrightarrow> u \<noteq> NaN \<and> v \<noteq> NaN"
  by (cases u; cases v) simp_all

lemma nonneg_f_not_NaN: "nonneg_f v \<Longrightarrow> v \<noteq> NaN"
  by (auto simp: nonneg_f_def)

lemma f_sub_Fin: "f_sub (Fin r) (Fin s) = rnd (r - s)"
  by (simp add: f_sub_def)

lemma nonneg_f_PInf [simp]: "nonneg_f PInf"
  by (simp add: nonneg_f_def)

lemma nonneg_f_Fin [simp]: "nonneg_f (Fin s) \<longleftrightarrow> 0 \<le> s"
  by (simp add: nonneg_f_def)

lemma nonneg_f_cases:
  assumes "nonneg_f v"
  obtains "v = PInf" | s where "v = Fin s" and "0 \<le> s"
  using assms by (auto simp: nonneg_f_def)

lemma f_mul_self_nonneg: "v \<noteq> NaN \<Longrightarrow> nonneg_f (f_mul v v)"
  by (cases v) (simp_all add: rnd_nonneg)

lemma f_add_nonneg:
  assumes "nonneg_f u" and "nonneg_f v"
  shows "nonneg_f (f_add u v)"
  using assms(1)
proof (cases rule: nonneg_f_cases)
  case 1
  show ?thesis using assms(2) 1 by (cases rule: nonneg_f_cases) simp_all
next
  case (2 r)
  show ?thesis using assms(2) 2 by (cases rule: nonneg_f_cases) (simp_all add: rnd_nonneg)
qed

lemma f_sqrt_nonneg: "nonneg_f v \<Longrightarrow> nonneg_f (f_sqrt v)"
  by (erule nonneg_f_cases) (simp_all add: rnd_nonneg)

lemma nonneg_f_not_below_zero: "nonneg_f v \<Longrightarrow> \<not> f_lt (Fin 0) v \<Longrightarrow> v = Fin 0"
  by (auto simp: nonneg_f_def)

text \<open>
  Values of \<open>sqrt\<close> and of \<open>rnd\<close> that the examples below use.
\<close>

lemma sqrt_of_square: "0 \<le> s \<Longrightarrow> s * s = r \<Longrightarrow> sqrt r = s"
  using real_sqrt_abs2 [of s] by simp

lemma sqrt_vals:
  "sqrt 4 = 2" "sqrt 9 = 3" "sqrt 16 = 4"
  "sqrt (1 / 16) = 1 / 4" "sqrt (9 / 16) = 3 / 4" "sqrt (1 / 16384) = 1 / 128"
  by (rule sqrt_of_square; simp)+

lemma rnd_vals:
  "rnd 1 = Fin 1" "rnd (- 1) = Fin (- 1)" "rnd 2 = Fin 2" "rnd (- 2) = Fin (- 2)"
  "rnd 3 = Fin 3" "rnd (- 3) = Fin (- 3)" "rnd 4 = Fin 4" "rnd 9 = Fin 9" "rnd 16 = Fin 16"
  by (simp_all add: rnd_unfold [where e = 0] rnd_unfold [where e = 1]
      rnd_unfold [where e = 2] rnd_unfold [where e = 3] rnd_unfold [where e = 4] rne_def)

lemma rnd_tiny:
  "rnd (- (1 / 8192)) = Fin (- (1 / 8192))"
  "rnd (1 / 67108864) = Fin (1 / 67108864)"
  "rnd (67108865 / 67108864) = Fin 1"
  by (simp_all add: rnd_unfold [where e = "- 13"] rnd_unfold [where e = "- 26"]
      rnd_unfold [where e = 0] rne_def)

lemma rnd_tiny2:
  "rnd (1 / 128) = Fin (1 / 128)" "rnd (1 / 16384) = Fin (1 / 16384)"
  "rnd (1 / 8192) = Fin (1 / 8192)"
  by (simp_all add: rnd_unfold [where e = "- 7"] rnd_unfold [where e = "- 14"]
      rnd_unfold [where e = "- 13"] rne_def)

lemma rnd_half: "rnd (1 / 2) = Fin (1 / 2)"
  by (simp add: rnd_unfold [where e = "- 1"] rne_def)

subsection \<open>Line: intersection\<close>

lemma quotient_combination:
  fixes d :: real
  assumes "d \<noteq> 0" and "A * N1 + B * N2 + C * d = 0"
  shows "A * (N1 / d) + B * (N2 / d) + C = 0"
proof -
  have "A * (N1 / d) + B * (N2 / d) + C = (A * N1 + B * N2 + C * d) / d"
    using assms(1) by (simp add: add_divide_distrib)
  then show ?thesis by (simp add: assms(2))
qed

lemma findIntersectionPoint_exact:
  assumes ex: "cramer_exact k1 k2" and nz: "a k1 * b k2 - a k2 * b k1 \<noteq> 0"
  shows "findIntersectionPoint k1 k2 =
           vec3f (Fin ((b k1 * c k2 - b k2 * c k1) / (a k1 * b k2 - a k2 * b k1)))
                 (Fin ((a k2 * c k1 - a k1 * c k2) / (a k1 * b k2 - a k2 * b k1))) (Fin 1)"
  using ex nz
  by (simp add: findIntersectionPoint_def cramer_exact_def exact_def f_sub_Fin Let_def)

text \<open>
  Claim C1. For every pair of lines, \<open>findIntersectionPoint\<close> computes
  \<open>det = a1 b2 - a2 b1\<close> in binary32; when \<open>det == 0\<close> in the floating-point
  comparison it returns the sentinel \<open>(0, 0, 1)\<close>, and otherwise it returns
  \<open>((b1 c2 - b2 c1) / det, (a2 c1 - a1 c2) / det, 1)\<close>, computed in binary32. In exact
  arithmetic, that is when no operation rounds, and with a non-zero determinant, the
  returned point is finite and satisfies the implicit equations of both lines exactly.
\<close>

theorem findIntersectionPoint_cramer:
  "(f_eq (f_sub (f_mul (Fin (a k1)) (Fin (b k2))) (f_mul (Fin (a k2)) (Fin (b k1)))) (Fin 0) \<longrightarrow>
      findIntersectionPoint k1 k2 = vec3f (Fin 0) (Fin 0) (Fin 1))
   \<and> (\<not> f_eq (f_sub (f_mul (Fin (a k1)) (Fin (b k2))) (f_mul (Fin (a k2)) (Fin (b k1)))) (Fin 0) \<longrightarrow>
      findIntersectionPoint k1 k2 =
        vec3f (f_div (f_sub (f_mul (Fin (b k1)) (Fin (c k2))) (f_mul (Fin (b k2)) (Fin (c k1))))
                     (f_sub (f_mul (Fin (a k1)) (Fin (b k2))) (f_mul (Fin (a k2)) (Fin (b k1)))))
              (f_div (f_sub (f_mul (Fin (a k2)) (Fin (c k1))) (f_mul (Fin (a k1)) (Fin (c k2))))
                     (f_sub (f_mul (Fin (a k1)) (Fin (b k2))) (f_mul (Fin (a k2)) (Fin (b k1)))))
              (Fin 1))
   \<and> (cramer_exact k1 k2 \<and> a k1 * b k2 - a k2 * b k1 \<noteq> 0 \<longrightarrow>
      (\<exists>u v. findIntersectionPoint k1 k2 = vec3f (Fin u) (Fin v) (Fin 1) \<and>
             u = (b k1 * c k2 - b k2 * c k1) / (a k1 * b k2 - a k2 * b k1) \<and>
             v = (a k2 * c k1 - a k1 * c k2) / (a k1 * b k2 - a k2 * b k1) \<and>
             on_line (a k1) (b k1) (c k1) (vec3 u v 1) \<and>
             on_line (a k2) (b k2) (c k2) (vec3 u v 1)))"
proof (intro conjI impI)
  assume "f_eq (f_sub (f_mul (Fin (a k1)) (Fin (b k2))) (f_mul (Fin (a k2)) (Fin (b k1)))) (Fin 0)"
  then show "findIntersectionPoint k1 k2 = vec3f (Fin 0) (Fin 0) (Fin 1)"
    by (simp add: findIntersectionPoint_def Let_def)
next
  assume "\<not> f_eq (f_sub (f_mul (Fin (a k1)) (Fin (b k2))) (f_mul (Fin (a k2)) (Fin (b k1)))) (Fin 0)"
  then show "findIntersectionPoint k1 k2 =
        vec3f (f_div (f_sub (f_mul (Fin (b k1)) (Fin (c k2))) (f_mul (Fin (b k2)) (Fin (c k1))))
                     (f_sub (f_mul (Fin (a k1)) (Fin (b k2))) (f_mul (Fin (a k2)) (Fin (b k1)))))
              (f_div (f_sub (f_mul (Fin (a k2)) (Fin (c k1))) (f_mul (Fin (a k1)) (Fin (c k2))))
                     (f_sub (f_mul (Fin (a k1)) (Fin (b k2))) (f_mul (Fin (a k2)) (Fin (b k1)))))
              (Fin 1)"
    by (simp add: findIntersectionPoint_def Let_def)
next
  let ?d = "a k1 * b k2 - a k2 * b k1"
  assume h: "cramer_exact k1 k2 \<and> ?d \<noteq> 0"
  then have nz: "?d \<noteq> 0" and ex: "cramer_exact k1 k2" by simp_all
  have e1: "a k1 * ((b k1 * c k2 - b k2 * c k1) / ?d)
            + b k1 * ((a k2 * c k1 - a k1 * c k2) / ?d) + c k1 = 0"
    by (rule quotient_combination [OF nz]) (simp add: algebra_simps)
  have e2: "a k2 * ((b k1 * c k2 - b k2 * c k1) / ?d)
            + b k2 * ((a k2 * c k1 - a k1 * c k2) / ?d) + c k2 = 0"
    by (rule quotient_combination [OF nz]) (simp add: algebra_simps)
  show "\<exists>u v. findIntersectionPoint k1 k2 = vec3f (Fin u) (Fin v) (Fin 1) \<and>
             u = (b k1 * c k2 - b k2 * c k1) / ?d \<and>
             v = (a k2 * c k1 - a k1 * c k2) / ?d \<and>
             on_line (a k1) (b k1) (c k1) (vec3 u v 1) \<and>
             on_line (a k2) (b k2) (c k2) (vec3 u v 1)"
    using findIntersectionPoint_exact [OF ex nz] e1 e2
    by (simp add: on_line_def)
qed

lemma Line_ctor_slanted:
  "Line_ctor (vec3 (- 1) 0 1) (vec3 1 1 1) =
     \<lparr> p1 = vec3 (- 1) 0 1, p2 = vec3 1 1 1, p3 = vec3 (- 1) 0 1, p4 = vec3 1 1 1,
       a = 1, b = - 2, c = 1, px = 2, py = 1 \<rparr>"
  by (simp add: Line_ctor_def Let_def)

lemma Line_ctor_y_axis:
  "Line_ctor (vec3 0 (- 1) 1) (vec3 0 1 1) =
     \<lparr> p1 = vec3 0 (- 1) 1, p2 = vec3 0 1 1, p3 = vec3 0 (- 1) 1, p4 = vec3 0 1 1,
       a = 1, b = 0, c = 0, px = 0, py = 2 \<rparr>"
  by (simp add: Line_ctor_def Let_def)

text \<open>
  A line against itself has determinant 0 and gets the sentinel. The lines through
  \<open>(-1, 0), (1, 1)\<close> and through \<open>(0, -1), (0, 1)\<close> meet at \<open>(0, 1/2)\<close>, and no
  operation rounds.
\<close>

theorem findIntersectionPoint_cramer_witness:
  "f_eq (f_sub (f_mul (Fin 1) (Fin (- 2))) (f_mul (Fin 1) (Fin (- 2)))) (Fin 0)
   \<and> findIntersectionPoint (Line_ctor (vec3 (- 1) 0 1) (vec3 1 1 1))
        (Line_ctor (vec3 (- 1) 0 1) (vec3 1 1 1)) = vec3f (Fin 0) (Fin 0) (Fin 1)
   \<and> \<not> f_eq (f_sub (f_mul (Fin 1) (Fin 0)) (f_mul (Fin 1) (Fin (- 2)))) (Fin 0)
   \<and> cramer_exact (Line_ctor (vec3 (- 1) 0 1) (vec3 1 1 1)) (Line_ctor (vec3 0 (- 1) 1) (vec3 0 1 1))
   \<and> findIntersectionPoint (Line_ctor (vec3 (- 1) 0 1) (vec3 1 1 1))
        (Line_ctor (vec3 0 (- 1) 1) (vec3 0 1 1)) = vec3f (Fin 0) (Fin (1 / 2)) (Fin 1)
   \<and> on_line 1 (- 2) 1 (vec3 0 (1 / 2) 1) \<and> on_line 1 0 0 (vec3 0 (1 / 2) 1)"
proof -
  have ex: "cramer_exact (Line_ctor (vec3 (- 1) 0 1) (vec3 1 1 1))
              (Line_ctor (vec3 0 (- 1) 1) (vec3 0 1 1))"
    by (simp add: cramer_exact_def exact_def Line_ctor_slanted Line_ctor_y_axis rnd_vals rnd_half)
  have d0: "f_eq (f_sub (f_mul (Fin 1) (Fin (- 2))) (f_mul (Fin 1) (Fin (- 2)))) (Fin 0)"
    by (simp add: f_sub_Fin rnd_vals)
  have d2: "\<not> f_eq (f_sub (f_mul (Fin 1) (Fin 0)) (f_mul (Fin 1) (Fin (- 2)))) (Fin 0)"
    by (simp add: f_sub_Fin rnd_vals)
  show ?thesis
    using findIntersectionPoint_cramer
        [of "Line_ctor (vec3 (- 1) 0 1) (vec3 1 1 1)" "Line_ctor (vec3 (- 1) 0 1) (vec3 1 1 1)"]
      findIntersectionPoint_cramer
        [of "Line_ctor (vec3 (- 1) 0 1) (vec3 1 1 1)" "Line_ctor (vec3 0 (- 1) 1) (vec3 0 1 1)"]
      ex d0 d2
    by (simp add: Line_ctor_slanted Line_ctor_y_axis on_line_def f_sub_Fin rnd_vals rnd_half)
qed

subsection \<open>Line: construction\<close>

text \<open>
  Claim C2. For every pair of points, \<open>Line(p1, p2)\<close> has the coefficients
  \<open>(a, b, c) = (1, 0, - p1.x)\<close> when \<open>p1.x = p2.x\<close>, and otherwise \<open>a = p2.y - p1.y\<close>,
  \<open>b = p1.x - p2.x\<close>, \<open>c = - a p1.x - b p1.y\<close>; in both cases the parametric direction
  is \<open>(px, py) = (p2.x - p1.x, p2.y - p1.y)\<close>.
\<close>

theorem Line_ctor_coefficients:
  "(x q1 = x q2 \<longrightarrow>
      a (Line_ctor q1 q2) = 1 \<and> b (Line_ctor q1 q2) = 0 \<and> c (Line_ctor q1 q2) = - x q1)
   \<and> (x q1 \<noteq> x q2 \<longrightarrow>
      a (Line_ctor q1 q2) = y q2 - y q1 \<and> b (Line_ctor q1 q2) = x q1 - x q2 \<and>
      c (Line_ctor q1 q2) = - a (Line_ctor q1 q2) * x q1 - b (Line_ctor q1 q2) * y q1)
   \<and> px (Line_ctor q1 q2) = x q2 - x q1 \<and> py (Line_ctor q1 q2) = y q2 - y q1"
  by (simp add: Line_ctor_def Let_def algebra_simps)

text \<open>
  A vertical pair, \<open>(1/4, 0)\<close> and \<open>(1/4, 1)\<close>, and the pair \<open>(-1/2, -1/2)\<close>,
  \<open>(1/2, 1/2)\<close> of the first end-to-end scenario.
\<close>

theorem Line_ctor_coefficients_witness:
  "x (vec3 (1 / 4) 0 1) = x (vec3 (1 / 4) 1 1)
   \<and> a (Line_ctor (vec3 (1 / 4) 0 1) (vec3 (1 / 4) 1 1)) = 1
   \<and> b (Line_ctor (vec3 (1 / 4) 0 1) (vec3 (1 / 4) 1 1)) = 0
   \<and> c (Line_ctor (vec3 (1 / 4) 0 1) (vec3 (1 / 4) 1 1)) = - (1 / 4)
   \<and> x (vec3 (- (1 / 2)) (- (1 / 2)) 1) \<noteq> x (vec3 (1 / 2) (1 / 2) 1)
   \<and> a (Line_ctor (vec3 (- (1 / 2)) (- (1 / 2)) 1) (vec3 (1 / 2) (1 / 2) 1)) = 1
   \<and> b (Line_ctor (vec3 (- (1 / 2)) (- (1 / 2)) 1) (vec3 (1 / 2) (1 / 2) 1)) = - 1
   \<and> c (Line_ctor (vec3 (- (1 / 2)) (- (1 / 2)) 1) (vec3 (1 / 2) (1 / 2) 1)) = 0
   \<and> px (Line_ctor (vec3 (- (1 / 2)) (- (1 / 2)) 1) (vec3 (1 / 2) (1 / 2) 1)) = 1
   \<and> py (Line_ctor (vec3 (- (1 / 2)) (- (1 / 2)) 1) (vec3 (1 / 2) (1 / 2) 1)) = 1"
  using Line_ctor_coefficients [of "vec3 (1 / 4) 0 1" "vec3 (1 / 4) 1 1"]
    Line_ctor_coefficients [of "vec3 (- (1 / 2)) (- (1 / 2)) 1" "vec3 (1 / 2) (1 / 2) 1"]
  by simp

text \<open>The render endpoints of a constructed line lie on its stored equation.\<close>

lemma Line_ctor_endpoints_on_line:
  "on_line (a (Line_ctor q1 q2)) (b (Line_ctor q1 q2)) (c (Line_ctor q1 q2)) (p3 (Line_ctor q1 q2))"
  "on_line (a (Line_ctor q1 q2)) (b (Line_ctor q1 q2)) (c (Line_ctor q1 q2)) (p4 (Line_ctor q1 q2))"
  by (simp_all add: Line_ctor_def Let_def on_line_def)

subsection \<open>Line: move\<close>

lemma move_Inr:
  "b k \<noteq> 0 \<Longrightarrow>
   move k t =
     Inr (k\<lparr> p1 := vec3 (- 1) ((- a k * - 1 - (- a k * x t - b k * y t)) / b k) 1,
             p2 := vec3 1 ((- a k * 1 - (- a k * x t - b k * y t)) / b k) 1,
             p3 := vec3 (- 1) ((- a k * - 1 - (- a k * x t - b k * y t)) / b k) 1,
             p4 := vec3 1 ((- a k * 1 - (- a k * x t - b k * y t)) / b k) 1 \<rparr>)"
  by (simp add: move_def fdiv_def Let_def)

lemma move_Inl: "b k = 0 \<Longrightarrow> move k t = Inl DivByZero"
  by (simp add: move_def fdiv_def Let_def)

text \<open>The division by zero happens exactly on the lines with \<open>b = 0\<close>.\<close>

lemma move_DivByZero_iff: "move k t = Inl DivByZero \<longleftrightarrow> b k = 0"
  by (cases "b k = 0") (simp_all add: move_Inl move_Inr)





text \<open>
  Claim C4. \<open>move\<close> divides by zero only when \<open>b = 0\<close>, and for every line produced by
  the constructor, lines through two points of equal x-coordinate included, \<open>move\<close>
  performs no division by zero. The first half is \<open>move_DivByZero_iff\<close>. The second
  half fails: the constructor gives a vertical pair \<open>b = 0\<close> and guards its own division
  by \<open>b\<close>, and \<open>move\<close> divides by \<open>b\<close> without the guard. The line through \<open>(0, 0)\<close> and
  \<open>(0, 1)\<close>, moved to \<open>(1/2, 1/2)\<close>:
\<close>

theorem move_vertical_divides_by_zero:
  "b (Line_ctor (vec3 0 0 1) (vec3 0 1 1)) = 0
   \<and> move (Line_ctor (vec3 0 0 1) (vec3 0 1 1)) (vec3 (1 / 2) (1 / 2) 1) = Inl DivByZero"
  by (simp add: Line_ctor_def move_def fdiv_def Let_def)

text \<open>
  Claim C5. After construction and after every \<open>move\<close>, the render endpoints \<open>p3\<close> and
  \<open>p4\<close> satisfy \<open>a x + b y + c = 0\<close> for the stored \<open>(a, b, c)\<close>. After construction they
  do (\<open>Line_ctor_endpoints_on_line\<close>). After \<open>move\<close> they do not: \<open>move\<close> computes the
  new offset into the local \<open>newC\<close> and never assigns the field \<open>c\<close>. The line through
  \<open>(0, 0)\<close> and \<open>(1, 1)\<close>, with \<open>(a, b, c) = (1, -1, 0)\<close>, moved to \<open>(0, 1)\<close>, keeps
  \<open>c = 0\<close> and gets \<open>p3 = (-1, 0)\<close>, which is not on \<open>x - y = 0\<close>.
\<close>

theorem move_leaves_c_stale:
  "\<exists>k'. move (Line_ctor (vec3 0 0 1) (vec3 1 1 1)) (vec3 0 1 1) = Inr k'
      \<and> c k' = 0 \<and> p3 k' = vec3 (- 1) 0 1 \<and> \<not> on_line (a k') (b k') (c k') (p3 k')"
  by (simp add: Line_ctor_def move_def fdiv_def on_line_def Let_def)


subsection \<open>Point registry: the nearest-point query\<close>

text \<open>
  The computed distance is never NaN and never negative, and it is 0 from a point to
  itself.
\<close>

lemma dist_f_nonneg: "nonneg_f (dist_f pos q)"
  unfolding dist_f_def
  by (intro f_sqrt_nonneg f_add_nonneg f_mul_self_nonneg) (simp_all add: f_sub_Fin)

lemma dist_f_self: "dist_f q q = Fin 0"
  by (simp add: dist_f_def f_sub_Fin)

text \<open>
  The loop invariant: after the scan of a prefix the estimate is the first minimum of
  the computed distances over that prefix.
\<close>

lemma searchNearestP_loop_first_min:
  assumes "first_min pos pre k" and "est = pre ! k" and "minD = dist_f pos est"
  shows "\<exists>k'. first_min pos (pre @ qs) k' \<and>
              searchNearestP_loop pos qs minD est = (pre @ qs) ! k'"
  using assms
proof (induction qs arbitrary: pre k est minD)
  case Nil
  then show ?case by auto
next
  case (Cons q qs)
  let ?d = "dist_f pos q"
  have klt: "k < length pre" using Cons.prems(1) by (simp add: first_min_def)
  have minD: "minD = dist_f pos (pre ! k)" using Cons.prems(2,3) by simp
  show ?case
  proof (cases "f_lt ?d minD")
    case True
    have nolower: "\<not> f_lt (dist_f pos q') ?d" if "q' \<in> set pre" for q'
    proof
      assume "f_lt (dist_f pos q') ?d"
      then have "f_lt (dist_f pos q') minD" using True by (rule f_lt_trans)
      then show False using Cons.prems(1) that by (simp add: first_min_def minD)
    qed
    have strict: "f_lt ?d (dist_f pos q')" if "q' \<in> set pre" for q'
    proof (rule f_lt_cover [OF True])
      show "\<not> f_lt (dist_f pos q') minD"
        using Cons.prems(1) that by (simp add: first_min_def minD)
      show "dist_f pos q' \<noteq> NaN"
        using dist_f_nonneg by (rule nonneg_f_not_NaN)
    qed
    have fm: "first_min pos (pre @ [q]) (length pre)"
      using nolower strict by (auto simp: first_min_def)
    from Cons.IH [OF fm, of q ?d]
    obtain k' where "first_min pos ((pre @ [q]) @ qs) k'"
      "searchNearestP_loop pos qs ?d q = ((pre @ [q]) @ qs) ! k'"
      by auto
    then show ?thesis using True by (auto simp: Let_def)
  next
    case False
    have fm: "first_min pos (pre @ [q]) k"
      using Cons.prems(1) False klt by (auto simp: first_min_def nth_append minD)
    have est: "est = (pre @ [q]) ! k" using Cons.prems(2) klt by (simp add: nth_append)
    from Cons.IH [OF fm est Cons.prems(3)]
    obtain k' where "first_min pos ((pre @ [q]) @ qs) k'"
      "searchNearestP_loop pos qs minD est = ((pre @ [q]) @ qs) ! k'"
      by auto
    then show ?thesis using False by (auto simp: Let_def)
  qed
qed

lemma searchNearestP_first_min:
  assumes "Vtx \<noteq> []"
  shows "\<exists>k. first_min pos Vtx k \<and> searchNearestP Vtx pos = Vtx ! k"
proof -
  obtain e rest where v: "Vtx = e # rest" using assms by (cases Vtx) auto
  have fm: "first_min pos [e] 0" by (simp add: first_min_def)
  from searchNearestP_loop_first_min [OF fm, of e "dist_f pos e" rest]
  obtain k' where "first_min pos ([e] @ rest) k'"
    "searchNearestP_loop pos rest (dist_f pos e) e = ([e] @ rest) ! k'"
    by auto
  then show ?thesis by (auto simp: v searchNearestP_def)
qed

text \<open>
  Claim C7, as the code has it. On an empty registry the query returns the sentinel
  \<open>(0, 0, 1)\<close>. On a non-empty registry it returns the stored point at the first minimum
  of the distances as computed in binary32, \<open>length(pos - q)\<close>: no stored point has a
  smaller computed distance and every earlier one has a greater computed distance. A
  query at the coordinates of a stored point returns a stored point at computed
  distance 0.
\<close>

theorem searchNearestP_nearest:
  "searchNearestP [] pos = vec3 0 0 1
   \<and> (Vtx \<noteq> [] \<longrightarrow> (\<exists>k. first_min pos Vtx k \<and> searchNearestP Vtx pos = Vtx ! k))
   \<and> (q \<in> set Vtx \<longrightarrow> searchNearestP Vtx q \<in> set Vtx \<and> dist_f q (searchNearestP Vtx q) = Fin 0)"
proof -
  have empty: "searchNearestP [] pos = vec3 0 0 1"
    by (simp add: searchNearestP_def)
  have self: "searchNearestP Vtx q \<in> set Vtx \<and> dist_f q (searchNearestP Vtx q) = Fin 0"
    if mem: "q \<in> set Vtx"
  proof -
    have ne: "Vtx \<noteq> []" using mem by auto
    obtain k where fm: "first_min q Vtx k" and res: "searchNearestP Vtx q = Vtx ! k"
      using searchNearestP_first_min [OF ne] by blast
    have "\<not> f_lt (dist_f q q) (dist_f q (Vtx ! k))" using fm mem by (simp add: first_min_def)
    then have "\<not> f_lt (Fin 0) (dist_f q (Vtx ! k))" by (simp add: dist_f_self)
    then have "dist_f q (Vtx ! k) = Fin 0"
      using dist_f_nonneg by (rule nonneg_f_not_below_zero [rotated])
    moreover have "Vtx ! k \<in> set Vtx" using fm by (simp add: first_min_def)
    ultimately show ?thesis by (simp add: res)
  qed
  show ?thesis using empty self searchNearestP_first_min by blast
qed

text \<open>
  The points \<open>(1, 0)\<close>, \<open>(-1, 0)\<close>, \<open>(3, 0)\<close> queried at the origin: the first two are
  both at distance 1 and the first one is returned. Queried at \<open>(3, 0)\<close>, the third
  point is returned.
\<close>

theorem searchNearestP_nearest_witness:
  "[vec3 1 0 1, vec3 (- 1) 0 1, vec3 3 0 1] \<noteq> []
   \<and> first_min (vec3 0 0 1) [vec3 1 0 1, vec3 (- 1) 0 1, vec3 3 0 1] 0
   \<and> searchNearestP [vec3 1 0 1, vec3 (- 1) 0 1, vec3 3 0 1] (vec3 0 0 1) = vec3 1 0 1
   \<and> vec3 3 0 1 \<in> set [vec3 1 0 1, vec3 (- 1) 0 1, vec3 3 0 1]
   \<and> searchNearestP [vec3 1 0 1, vec3 (- 1) 0 1, vec3 3 0 1] (vec3 3 0 1) = vec3 3 0 1
   \<and> dist_f (vec3 3 0 1) (vec3 3 0 1) = Fin 0"
  using searchNearestP_nearest [of "vec3 0 0 1" "[vec3 1 0 1, vec3 (- 1) 0 1, vec3 3 0 1]" "vec3 3 0 1"]
  by (simp add: searchNearestP_def first_min_def dist_f_def f_sub_Fin rnd_vals sqrt_vals)

text \<open>
  The returned point is not always a nearest one in the Euclidean distance. With the
  stored points \<open>(1, 2^-13)\<close> and \<open>(1, 0)\<close> and the query \<open>(0, 0)\<close>, the squared length
  \<open>1 + 2^-26\<close> of the first difference rounds to 1 in binary32, both computed distances
  are 1, and the strict comparison keeps the first point, which is farther from the
  query than the second.
\<close>

theorem searchNearestP_not_nearest:
  "searchNearestP [vec3 1 (1 / 8192) 1, vec3 1 0 1] (vec3 0 0 1) = vec3 1 (1 / 8192) 1
   \<and> distP (vec3 0 0 1) (vec3 1 0 1) < distP (vec3 0 0 1) (vec3 1 (1 / 8192) 1)"
  by (simp add: searchNearestP_def dist_f_def f_sub_Fin rnd_vals rnd_tiny distP_def)

subsection \<open>Line registry: the nearest-line query\<close>

text \<open>
  The loop invariant \<open>scanned\<close>: the loop visits the slots \<open>0, 4, 8, ...\<close>, and before slot
  \<open>i\<close> either nothing qualified and the variables are still \<open>(20, -1)\<close>, or they hold the
  first qualifying line of minimal computed distance.
\<close>

lemma slot_cases:
  fixes i j :: nat
  assumes "4 dvd i" and "4 dvd j" and "j < i + 4"
  shows "j < i \<or> j = i"
  using assms by presburger

lemma none_before_skip:
  assumes "none_before Vtx pos i" and "4 dvd i" and "\<not> selectable Vtx pos i"
  shows "none_before Vtx pos (i + 4)"
  unfolding none_before_def
proof (intro allI impI)
  fix j assume "j < i + 4" and "4 dvd j"
  then have "j < i \<or> j = i" using assms(2) slot_cases by blast
  then show "\<not> selectable Vtx pos j"
    using assms(1,3) \<open>4 dvd j\<close> by (auto simp: none_before_def)
qed

lemma best_before_skip:
  assumes bb: "best_before Vtx pos i j" and dv: "4 dvd i"
    and le: "selectable Vtx pos i \<Longrightarrow> \<not> f_lt (slot_distance Vtx pos i) (slot_distance Vtx pos j)"
  shows "best_before Vtx pos (i + 4) j"
proof -
  have "\<not> f_lt (slot_distance Vtx pos j') (slot_distance Vtx pos j)"
    if "j' < i + 4" and "4 dvd j'" and "selectable Vtx pos j'" for j'
  proof -
    have "j' < i \<or> j' = i" using that(1,2) dv slot_cases by blast
    then show ?thesis using bb le that(2,3) by (auto simp: best_before_def)
  qed
  then show ?thesis using bb by (simp add: best_before_def)
qed

lemma best_before_first:
  assumes nb: "none_before Vtx pos i" and dv: "4 dvd i" and sel: "selectable Vtx pos i"
  shows "best_before Vtx pos (i + 4) i"
proof -
  have "\<not> f_lt (slot_distance Vtx pos j') (slot_distance Vtx pos i)"
    if "j' < i + 4" and "4 dvd j'" and "selectable Vtx pos j'" for j'
  proof -
    have "j' < i \<or> j' = i" using that(1,2) dv slot_cases by blast
    then show ?thesis using nb that(2,3) by (auto simp: none_before_def)
  qed
  moreover have "f_lt (slot_distance Vtx pos i) (slot_distance Vtx pos j')"
    if "j' < i" and "4 dvd j'" and "selectable Vtx pos j'" for j'
    using nb that by (simp add: none_before_def)
  ultimately show ?thesis using dv sel by (simp add: best_before_def)
qed

lemma selectable_not_NaN: "selectable Vtx pos j \<Longrightarrow> slot_distance Vtx pos j \<noteq> NaN"
  using f_lt_not_NaN by (auto simp: selectable_def)

lemma best_before_replace:
  assumes bb: "best_before Vtx pos i j" and dv: "4 dvd i" and sel: "selectable Vtx pos i"
    and lt: "f_lt (slot_distance Vtx pos i) (slot_distance Vtx pos j)"
  shows "best_before Vtx pos (i + 4) i"
proof -
  have below: "f_lt (slot_distance Vtx pos i) (slot_distance Vtx pos j')"
    if "j' < i" and "4 dvd j'" and "selectable Vtx pos j'" for j'
  proof (rule f_lt_cover [OF lt])
    show "\<not> f_lt (slot_distance Vtx pos j') (slot_distance Vtx pos j)"
      using bb that by (simp add: best_before_def)
    show "slot_distance Vtx pos j' \<noteq> NaN"
      using that(3) by (rule selectable_not_NaN)
  qed
  have "\<not> f_lt (slot_distance Vtx pos j') (slot_distance Vtx pos i)"
    if "j' < i + 4" and "4 dvd j'" and "selectable Vtx pos j'" for j'
  proof -
    have "j' < i \<or> j' = i" using that(1,2) dv slot_cases by blast
    then show ?thesis
    proof
      assume "j' < i"
      from below [OF this that(2,3)] show ?thesis
        using f_lt_trans f_lt_irrefl by blast
    next
      assume "j' = i"
      then show ?thesis by simp
    qed
  qed
  then show ?thesis using below dv sel by (simp add: best_before_def)
qed

lemma threshold_below_cap: "f_lt (Fin threshold) (Fin 20)"
  by (simp add: threshold_def)

lemma scanned_take:
  assumes sc: "scanned Vtx pos i minD nl" and dv: "4 dvd i"
    and lt: "f_lt (slot_distance Vtx pos i) minD"
    and th: "f_lt (slot_distance Vtx pos i) (Fin threshold)"
  shows "scanned Vtx pos (i + 4) (slot_distance Vtx pos i) (int i)"
proof -
  have sel: "selectable Vtx pos i"
    using th f_lt_trans [OF th threshold_below_cap] by (simp add: selectable_def)
  have "best_before Vtx pos (i + 4) i"
    using sc dv sel lt best_before_first best_before_replace
    unfolding scanned_def by blast
  then show ?thesis unfolding scanned_def by blast
qed

lemma scanned_keep:
  assumes sc: "scanned Vtx pos i minD nl" and dv: "4 dvd i"
    and no: "\<not> (f_lt (slot_distance Vtx pos i) minD \<and> f_lt (slot_distance Vtx pos i) (Fin threshold))"
  shows "scanned Vtx pos (i + 4) minD nl"
  using sc unfolding scanned_def
proof (elim disjE conjE exE)
  assume "nl = - 1" and m: "minD = Fin 20" and nb: "none_before Vtx pos i"
  have "\<not> selectable Vtx pos i" using no m by (auto simp: selectable_def)
  then have "none_before Vtx pos (i + 4)" using nb dv none_before_skip by blast
  then show "nl = - 1 \<and> minD = Fin 20 \<and> none_before Vtx pos (i + 4) \<or>
    (\<exists>j. nl = int j \<and> minD = slot_distance Vtx pos j \<and> best_before Vtx pos (i + 4) j)"
    using \<open>nl = - 1\<close> m by blast
next
  fix j assume nl: "nl = int j" and m: "minD = slot_distance Vtx pos j"
    and bb: "best_before Vtx pos i j"
  have "\<not> f_lt (slot_distance Vtx pos i) (slot_distance Vtx pos j)" if "selectable Vtx pos i"
    using no m that by (auto simp: selectable_def)
  then have "best_before Vtx pos (i + 4) j" using bb dv best_before_skip by blast
  then show "nl = - 1 \<and> minD = Fin 20 \<and> none_before Vtx pos (i + 4) \<or>
    (\<exists>j. nl = int j \<and> minD = slot_distance Vtx pos j \<and> best_before Vtx pos (i + 4) j)"
    using nl m by blast
qed

lemma findNearestLine_loop_exit:
  "\<not> i < length Vtx \<Longrightarrow> findNearestLine_loop Vtx pos i minD nl = Inr nl"
  by (subst findNearestLine_loop.simps) simp

lemma findNearestLine_loop_step:
  assumes "i + 1 < length Vtx"
  shows "findNearestLine_loop Vtx pos i minD nl =
           (if f_lt (slot_distance Vtx pos i) minD \<and> f_lt (slot_distance Vtx pos i) (Fin threshold)
            then findNearestLine_loop Vtx pos (i + 4) (slot_distance Vtx pos i) (int i)
            else findNearestLine_loop Vtx pos (i + 4) minD nl)"
proof -
  have rd0: "vtx_at Vtx (int i) = Inr (Vtx ! i)"
    using assms by (simp add: vtx_at_def)
  have rd1: "vtx_at Vtx (int i + 1) = Inr (Vtx ! (i + 1))"
    using assms by (simp add: vtx_at_def nat_add_distrib)
  show ?thesis
    using assms
    by (subst findNearestLine_loop.simps)
      (simp add: rd0 rd1 Let_def slot_distance_def)
qed

lemma findNearestLine_loop_scanned:
  assumes "length Vtx mod 4 = 0" and "4 dvd i" and "i \<le> length Vtx"
    and "scanned Vtx pos i minD nl"
  shows "\<exists>r d. findNearestLine_loop Vtx pos i minD nl = Inr r \<and>
               scanned Vtx pos (length Vtx) d r"
  using assms
proof (induction "length Vtx - i" arbitrary: i minD nl rule: less_induct)
  case less
  show ?case
  proof (cases "i < length Vtx")
    case False
    then have "i = length Vtx" using less.prems(3) by simp
    then show ?thesis
      using less.prems(4) by (auto simp: findNearestLine_loop_exit)
  next
    case True
    have room: "i + 4 \<le> length Vtx"
      using True less.prems(1,2) by presburger
    have dv': "4 dvd i + 4" using less.prems(2) by simp
    have dec: "length Vtx - (i + 4) < length Vtx - i" using True by simp
    have rd: "i + 1 < length Vtx" using room by simp
    note IH = less.hyps [OF dec less.prems(1) dv' room]
    note step = findNearestLine_loop_step [OF rd, of pos minD nl]
    let ?d = "slot_distance Vtx pos i"
    show ?thesis
    proof (cases "f_lt ?d minD \<and> f_lt ?d (Fin threshold)")
      case True
      have "scanned Vtx pos (i + 4) ?d (int i)"
        using less.prems(4,2) True by (simp add: scanned_take)
      from IH [OF this] show ?thesis
        using True by (simp add: step)
    next
      case False
      have "scanned Vtx pos (i + 4) minD nl"
        using less.prems(4,2) False by (rule scanned_keep)
      from IH [OF this] show ?thesis
        using False by (auto simp: step)
    qed
  qed
qed

lemma findNearestLine_scanned:
  assumes "length Vtx mod 4 = 0"
  shows "\<exists>r d. findNearestLine Vtx pos = Inr r \<and> scanned Vtx pos (length Vtx) d r"
proof -
  have start: "scanned Vtx pos 0 (Fin 20) (- 1)"
    by (simp add: scanned_def none_before_def)
  from findNearestLine_loop_scanned [OF assms _ _ start]
  show ?thesis by (auto simp: findNearestLine_def)
qed

text \<open>
  Claim C6, as the code has it. For every query position and every registry of whole
  lines, \<open>findNearestLine\<close> returns; a returned index other than \<open>-1\<close> is the first slot of
  a stored line whose distance \<open>length(cross(direction, pos - p1)) / length(direction)\<close>,
  as computed in binary32, is below both the cap 20 and the threshold 0.01; no qualifying
  line has a smaller computed distance, and every earlier qualifying line has a greater
  one. The result is \<open>-1\<close> exactly when no stored line qualifies.
\<close>

theorem findNearestLine_first_nearest:
  assumes "length Vtx mod 4 = 0"
  shows "\<exists>r. findNearestLine Vtx pos = Inr r \<and>
           (r \<noteq> - 1 \<longrightarrow>
              (\<exists>j. r = int j \<and> j < length Vtx \<and> 4 dvd j \<and>
                   f_lt (slot_distance Vtx pos j) (Fin 20) \<and>
                   f_lt (slot_distance Vtx pos j) (Fin threshold) \<and>
                   (\<forall>j'<length Vtx. 4 dvd j' \<and> selectable Vtx pos j' \<longrightarrow>
                      \<not> f_lt (slot_distance Vtx pos j') (slot_distance Vtx pos j)) \<and>
                   (\<forall>j'<j. 4 dvd j' \<and> selectable Vtx pos j' \<longrightarrow>
                      f_lt (slot_distance Vtx pos j) (slot_distance Vtx pos j')))) \<and>
           (r = - 1 \<longleftrightarrow> (\<forall>j<length Vtx. 4 dvd j \<longrightarrow> \<not> selectable Vtx pos j))"
proof -
  obtain r d where res: "findNearestLine Vtx pos = Inr r"
    and sc: "scanned Vtx pos (length Vtx) d r"
    using findNearestLine_scanned [OF assms] by blast
  from sc show ?thesis
    unfolding scanned_def
  proof (elim disjE conjE exE)
    assume "r = - 1" and "none_before Vtx pos (length Vtx)"
    then show ?thesis using res by (simp add: none_before_def)
  next
    fix j assume r: "r = int j" and bb: "best_before Vtx pos (length Vtx) j"
    have "r \<noteq> - 1" using r by simp
    moreover have "\<not> (\<forall>j<length Vtx. 4 dvd j \<longrightarrow> \<not> selectable Vtx pos j)"
      using bb by (auto simp: best_before_def)
    ultimately show ?thesis
      using res r bb by (auto simp: best_before_def selectable_def)
  qed
qed

lemmas vec_f_defs = slot_distance_def vsub_def to_f_def cross_def length3_def dot_def f_sub_Fin Let_def

lemma axes_distances:
  "slot_distance axes_registry (vec3 0 1 1) 0 = Fin 1"
  "slot_distance axes_registry (vec3 0 1 1) 4 = Fin 0"
  "slot_distance axes_registry (vec3 1 1 1) 0 = Fin 1"
  "slot_distance axes_registry (vec3 1 1 1) 4 = Fin 1"
  "slot_distance axes_registry (vec3 0 0 1) 0 = Fin 0"
  "slot_distance axes_registry (vec3 0 0 1) 4 = Fin 0"
  by (simp_all add: axes_registry_def vec_f_defs rnd_vals)

lemma near_tie_distances:
  "slot_distance near_tie_registry (vec3 0 (1 / 128) 1) 0 = Fin (1 / 128)"
  "slot_distance near_tie_registry (vec3 0 (1 / 128) 1) 4 = Fin (1 / 128)"
  by (simp_all add: near_tie_registry_def vec_f_defs rnd_vals rnd_tiny rnd_tiny2 sqrt_vals)

lemma scan_two_lines:
  assumes "length Vtx = 8"
  shows "findNearestLine Vtx pos =
     (let d0 = slot_distance Vtx pos 0; d4 = slot_distance Vtx pos 4
      in if f_lt d0 (Fin 20) \<and> f_lt d0 (Fin threshold)
         then (if f_lt d4 d0 \<and> f_lt d4 (Fin threshold) then Inr 4 else Inr 0)
         else (if f_lt d4 (Fin 20) \<and> f_lt d4 (Fin threshold) then Inr 4 else Inr (- 1)))"
  using assms
  by (simp add: findNearestLine_def findNearestLine_loop_step findNearestLine_loop_exit Let_def)

text \<open>
  The x-axis in slots 0 to 3 and the y-axis in slots 4 to 7. The query \<open>(0, 1)\<close> selects
  the y-axis, \<open>(1, 1)\<close> selects nothing, and at the origin both lines are at distance 0
  and the first wins.
\<close>

theorem findNearestLine_first_nearest_witness:
  "length axes_registry mod 4 = 0
   \<and> findNearestLine axes_registry (vec3 0 1 1) = Inr 4
   \<and> selectable axes_registry (vec3 0 1 1) 4 \<and> \<not> selectable axes_registry (vec3 0 1 1) 0
   \<and> findNearestLine axes_registry (vec3 1 1 1) = Inr (- 1)
   \<and> \<not> selectable axes_registry (vec3 1 1 1) 0 \<and> \<not> selectable axes_registry (vec3 1 1 1) 4
   \<and> findNearestLine axes_registry (vec3 0 0 1) = Inr 0
   \<and> selectable axes_registry (vec3 0 0 1) 0 \<and> selectable axes_registry (vec3 0 0 1) 4"
proof -
  have len: "length axes_registry mod 4 = 0" and len8: "length axes_registry = 8"
    by (simp_all add: axes_registry_def)
  have sel: "selectable axes_registry (vec3 0 1 1) 4" "\<not> selectable axes_registry (vec3 0 1 1) 0"
    "\<not> selectable axes_registry (vec3 1 1 1) 0" "\<not> selectable axes_registry (vec3 1 1 1) 4"
    "selectable axes_registry (vec3 0 0 1) 0" "selectable axes_registry (vec3 0 0 1) 4"
    by (simp_all add: selectable_def axes_distances threshold_def)
  have run: "findNearestLine axes_registry (vec3 0 1 1) = Inr 4"
    "findNearestLine axes_registry (vec3 1 1 1) = Inr (- 1)"
    "findNearestLine axes_registry (vec3 0 0 1) = Inr 0"
    by (simp_all add: scan_two_lines [OF len8] axes_distances threshold_def)
  show ?thesis
    using findNearestLine_first_nearest [OF len, of "vec3 0 1 1"] len sel run by simp
qed

text \<open>
  The selected line is not always the nearest one in the perpendicular distance. With
  the lines through \<open>(0, 0), (1, 0)\<close> and through \<open>(0, 0), (1, 2^-13)\<close> and the query
  \<open>(0, 2^-7)\<close>, both computed distances are \<open>2^-7\<close>, since the length of the second
  direction rounds to 1, and the first line is returned, although the second line is
  strictly nearer and also below the threshold.
\<close>

theorem findNearestLine_not_nearest:
  "findNearestLine near_tie_registry (vec3 0 (1 / 128) 1) = Inr 0
   \<and> perp_distance (near_tie_registry ! 4) (near_tie_registry ! 5) (vec3 0 (1 / 128) 1)
       < perp_distance (near_tie_registry ! 0) (near_tie_registry ! 1) (vec3 0 (1 / 128) 1)
   \<and> perp_distance (near_tie_registry ! 4) (near_tie_registry ! 5) (vec3 0 (1 / 128) 1) < 1 / 100"
proof -
  have len: "length near_tie_registry = 8" by (simp add: near_tie_registry_def)
  have run: "findNearestLine near_tie_registry (vec3 0 (1 / 128) 1) = Inr 0"
    by (simp add: scan_two_lines [OF len] near_tie_distances threshold_def)
  have big: "1 < sqrt (67108865 / 67108864)" by simp
  have p0: "perp_distance (near_tie_registry ! 0) (near_tie_registry ! 1) (vec3 0 (1 / 128) 1)
            = 1 / 128"
    by (simp add: near_tie_registry_def perp_distance_def)
  have p4: "perp_distance (near_tie_registry ! 4) (near_tie_registry ! 5) (vec3 0 (1 / 128) 1)
            = (1 / 128) / sqrt (67108865 / 67108864)"
    by (simp add: near_tie_registry_def perp_distance_def)
  have lt: "(1 / 128) / sqrt (67108865 / 67108864) < 1 / 128"
    using big by (simp add: field_simps)
  have c2: "perp_distance (near_tie_registry ! 4) (near_tie_registry ! 5) (vec3 0 (1 / 128) 1)
       < perp_distance (near_tie_registry ! 0) (near_tie_registry ! 1) (vec3 0 (1 / 128) 1)"
    unfolding p0 p4 by (rule lt)
  have c3: "perp_distance (near_tie_registry ! 4) (near_tie_registry ! 5) (vec3 0 (1 / 128) 1)
       < 1 / 100"
    unfolding p4 using lt by linarith
  show ?thesis
    by (intro conjI) (fact run c2 c3)+
qed

subsection \<open>The cursor position\<close>

text \<open>
  A rounding does not leave an interval \<open>[-2^k, 2^k]\<close>, so the conversion of a pixel
  whose coordinates are 32-bit integers is finite: \<open>cursor\<close> returns a position for
  every pixel that the handlers receive.
\<close>

lemma expo_from_le: "r < 2 powi (k + 1) \<Longrightarrow> e \<le> k \<Longrightarrow> expo_from n e r \<le> k"
proof (induction n arbitrary: e)
  case 0
  then show ?case by simp
next
  case (Suc n)
  show ?case
  proof (cases "r < 2 powi (e + 1)")
    case True
    then show ?thesis using Suc.prems by simp
  next
    case False
    have "e + 1 \<le> k"
    proof (rule ccontr)
      assume "\<not> e + 1 \<le> k"
      then have "e = k" using Suc.prems(2) by simp
      then show False using False Suc.prems(1) by simp
    qed
    then show ?thesis using False Suc.IH [OF Suc.prems(1)] by simp
  qed
qed

lemma rne_le: "t \<le> of_int N \<Longrightarrow> rne t \<le> N"
proof -
  assume t: "t \<le> of_int N"
  have f: "\<lfloor>t\<rfloor> \<le> N" using t by linarith
  show ?thesis
  proof (cases "\<lfloor>t\<rfloor> = N")
    case True
    then have "t = of_int N" using t of_int_floor_le [of t] by linarith
    then show ?thesis by (simp add: rne_def)
  next
    case False
    then have "\<lfloor>t\<rfloor> + 1 \<le> N" using f by simp
    then show ?thesis by (auto simp: rne_def Let_def)
  qed
qed

lemma rne_ge: "of_int N \<le> t \<Longrightarrow> N \<le> rne t"
proof -
  assume t: "of_int N \<le> t"
  have f: "N \<le> \<lfloor>t\<rfloor>" using t by (simp add: le_floor_iff)
  then show ?thesis by (auto simp: rne_def Let_def)
qed

lemma rnd_bounded:
  assumes "\<bar>r\<bar> \<le> 2 ^ k" and "k \<le> 126"
  shows "\<exists>q. rnd r = Fin q \<and> \<bar>q\<bar> \<le> 2 ^ k"
proof -
  define e where "e = expo r"
  define u :: real where "u = 2 powi (e - 23)"
  define N :: int where "N = 2 ^ nat (int k - e + 23)"
  have "\<bar>r\<bar> < 2 powi (int k + 1)"
  proof -
    have "(2::real) ^ k < 2 ^ (k + 1)" by simp
    also have "\<dots> = 2 powi (int k + 1)" by (simp add: power_int_def nat_add_distrib)
    finally show ?thesis using assms(1) by linarith
  qed
  then have e: "e \<le> int k"
    unfolding e_def expo_def by (rule expo_from_le) simp
  have u: "0 < u" by (simp add: u_def)
  have pw: "(2::real) powi (i + j) = 2 powi i * 2 powi j" for i j
    by (simp add: power_int_add)
  have Nu: "of_int N * u = 2 ^ k"
  proof -
    have "of_int N = (2::real) powi (int k - e + 23)"
      using e by (simp add: N_def power_int_def)
    then have "of_int N * u = 2 powi (int k - e + 23) * 2 powi (e - 23)"
      by (simp only: u_def)
    also have "\<dots> = 2 powi (int k - e + 23 + (e - 23))"
      by (rule pw [symmetric])
    also have "int k - e + 23 + (e - 23) = int k" by simp
    finally show ?thesis by simp
  qed
  have up: "r / u \<le> of_int N"
    using assms(1) u Nu by (simp add: field_simps)
  have lo: "of_int (- N) \<le> r / u"
    using assms(1) u Nu by (simp add: field_simps)
  have "rne (r / u) \<le> N" "- N \<le> rne (r / u)"
    using rne_le [OF up] rne_ge [OF lo] by simp_all
  then have "\<bar>real_of_int (rne (r / u))\<bar> \<le> of_int N" by linarith
  then have "u * \<bar>real_of_int (rne (r / u))\<bar> \<le> u * of_int N"
    using u by (intro mult_left_mono) auto
  also have "u * of_int N = 2 ^ k" using Nu by (simp add: mult.commute)
  finally have "u * \<bar>real_of_int (rne (r / u))\<bar> \<le> 2 ^ k" .
  moreover have "\<bar>u * of_int (rne (r / u))\<bar> = u * \<bar>real_of_int (rne (r / u))\<bar>"
    using u by (simp add: abs_mult)
  ultimately have q: "\<bar>u * of_int (rne (r / u))\<bar> \<le> 2 ^ k" by simp
  have "(2::real) ^ k \<le> 2 ^ 126" using assms(2) by (intro power_increasing) auto
  also have "\<dots> < 2 ^ 128" by simp
  finally have "(2::real) ^ k < 2 ^ 128" .
  then have "\<not> 2 ^ 128 \<le> u * of_int (rne (r / u))" "\<not> u * of_int (rne (r / u)) \<le> - (2 ^ 128)"
    using q by linarith+
  then show ?thesis
    using q by (simp add: rnd_def Let_def e_def [symmetric] u_def [symmetric])
qed

lemma rnd_600: "rnd 600 = Fin 600"
  by (simp add: rnd_unfold [where e = 9] rne_def)

lemma pixel_finite:
  assumes "\<bar>pX\<bar> \<le> 2 ^ 31"
  shows "\<exists>r. f_div (f_mul (Fin 2) (rnd (of_int pX))) (Fin 600) = Fin r \<and> \<bar>r\<bar> \<le> 2 ^ 32"
proof -
  have "\<bar>real_of_int pX\<bar> \<le> 2 ^ 31" 
  proof -
    have "real_of_int \<bar>pX\<bar> \<le> real_of_int (2 ^ 31)" using assms by (simp only: of_int_le_iff)
    then show ?thesis by simp
  qed
  then obtain q1 where q1: "rnd (of_int pX) = Fin q1" "\<bar>q1\<bar> \<le> 2 ^ 31"
    using rnd_bounded [of "of_int pX" 31] by auto
  have "\<bar>2 * q1\<bar> \<le> 2 ^ 32" using q1(2) by simp
  then obtain q2 where q2: "rnd (2 * q1) = Fin q2" "\<bar>q2\<bar> \<le> 2 ^ 32"
    using rnd_bounded [of "2 * q1" 32] by auto
  have "\<bar>q2 / 600\<bar> \<le> 2 ^ 32" using q2(2) by simp
  then obtain q3 where q3: "rnd (q2 / 600) = Fin q3" "\<bar>q3\<bar> \<le> 2 ^ 32"
    using rnd_bounded [of "q2 / 600" 32] by auto
  show ?thesis using q1 q2 q3 by simp
qed

lemma cursor_finite:
  assumes "\<bar>pX\<bar> \<le> 2 ^ 31" and "\<bar>pY\<bar> \<le> 2 ^ 31"
  shows "\<exists>cX cY. cursor pX pY = Inr (vec3 cX cY 1)"
proof -
  obtain r where r: "f_div (f_mul (Fin 2) (rnd (of_int pX))) (Fin 600) = Fin r" "\<bar>r\<bar> \<le> 2 ^ 32"
    using pixel_finite [OF assms(1)] by auto
  obtain s where s: "f_div (f_mul (Fin 2) (rnd (of_int pY))) (Fin 600) = Fin s" "\<bar>s\<bar> \<le> 2 ^ 32"
    using pixel_finite [OF assms(2)] by auto
  have "\<bar>r - 1\<bar> \<le> 2 ^ 33" using r(2) by simp
  then obtain cX where cX: "rnd (r - 1) = Fin cX"
    using rnd_bounded [of "r - 1" 33] by auto
  have "\<bar>1 - s\<bar> \<le> 2 ^ 33" using s(2) by simp
  then obtain cY where cY: "rnd (1 - s) = Fin cY"
    using rnd_bounded [of "1 - s" 33] by auto
  show ?thesis
    using r(1) s(1) cX cY
    by (simp add: cursor_def cX_of_def cY_of_def of_f_def windowWidth_def windowHeight_def
        rnd_600 f_sub_Fin)
qed

lemma rnd_pixels:
  "rnd 150 = Fin 150" "rnd 225 = Fin 225" "rnd 300 = Fin 300" "rnd 375 = Fin 375"
  "rnd 450 = Fin 450" "rnd 750 = Fin 750" "rnd 900 = Fin 900"
  by (simp_all add: rnd_unfold [where e = 7] rnd_unfold [where e = 8] rnd_unfold [where e = 9]
      rne_def)

lemma rnd_fractions:
  "rnd (1 / 4) = Fin (1 / 4)" "rnd (- (1 / 4)) = Fin (- (1 / 4))"
  "rnd (- (1 / 2)) = Fin (- (1 / 2))"
  "rnd (3 / 4) = Fin (3 / 4)" "rnd (- (3 / 4)) = Fin (- (3 / 4))"
  "rnd (5 / 4) = Fin (5 / 4)" "rnd (3 / 2) = Fin (3 / 2)"
  "rnd (1 / 16) = Fin (1 / 16)" "rnd (9 / 16) = Fin (9 / 16)"
  by (simp_all add: rnd_unfold [where e = "- 2"] rnd_unfold [where e = "- 1"]
      rnd_unfold [where e = 0] rnd_unfold [where e = "- 4"] rne_def)

lemmas cursor_defs = cursor_def cX_of_def cY_of_def of_f_def windowWidth_def windowHeight_def
  rnd_600 rnd_pixels rnd_fractions rnd_vals rnd_half f_sub_Fin

lemma cursor_vals:
  "cursor 150 300 = Inr (vec3 (- (1 / 2)) 0 1)"
  "cursor 450 300 = Inr (vec3 (1 / 2) 0 1)"
  "cursor 225 300 = Inr (vec3 (- (1 / 4)) 0 1)"
  "cursor 375 300 = Inr (vec3 (1 / 4) 0 1)"
  "cursor 300 300 = Inr (vec3 0 0 1)"
  "cursor 300 0 = Inr (vec3 0 1 1)"
  by (simp_all add: cursor_defs)

subsection \<open>Invariants of the event loop\<close>

text \<open>
  Every handler keeps \<open>pending_ok\<close>: the point registry only grows, and a pending
  start is recorded only when two points exist.
\<close>

lemma onKeyboard_fields:
  "points (onKeyboard key g) = points g" "lines (onKeyboard key g) = lines g"
  "firstCLick (onKeyboard key g) = firstCLick g"
  "points (onKeyboardUp key g) = points g" "lines (onKeyboardUp key g) = lines g"
  "firstCLick (onKeyboardUp key g) = firstCLick g"
  by (simp_all add: onKeyboard_def onKeyboardUp_def Let_def)

lemma onMouse_p_pending:
  "onMouse_p st pX pY g = Inr g' \<Longrightarrow> pending_ok g \<Longrightarrow> pending_ok g'"
  by (auto simp: pending_ok_def onMouse_p_def addPoint_def split: if_splits sum.splits)

lemma onMouse_l_pending:
  "onMouse_l st pX pY g = Inr g' \<Longrightarrow> pending_ok g \<Longrightarrow> pending_ok g'"
  by (auto simp: pending_ok_def onMouse_l_def startDrawing_def finishDrawing_def addLine_def
      isFirst_def size_points_def Let_def split: if_splits sum.splits)

lemma onMouse_i_pending:
  "onMouse_i st pX pY g = Inr g' \<Longrightarrow> pending_ok g \<Longrightarrow> pending_ok g'"
  by (auto simp: pending_ok_def onMouse_i_def addPoint_def Let_def
      split: if_splits sum.splits)

lemma onMouse_m_pending:
  "onMouse_m st pX pY g = Inr g' \<Longrightarrow> pending_ok g \<Longrightarrow> pending_ok g'"
  by (auto simp: pending_ok_def onMouse_m_def Let_def split: if_splits sum.splits)

lemma onMouse_steps:
  assumes "onMouse GLUT_LEFT_BUTTON st pX pY g = Inr g'"
  obtains g1 g2 g3 where "onMouse_p st pX pY g = Inr g1" and "onMouse_l st pX pY g1 = Inr g2"
    and "onMouse_i st pX pY g2 = Inr g3" and "onMouse_m st pX pY g3 = Inr g'"
  using assms by (auto simp: onMouse_def split: sum.splits)

lemma onMouse_pending:
  assumes "onMouse button st pX pY g = Inr g'" and "pending_ok g"
  shows "pending_ok g'"
proof (cases button)
  case GLUT_LEFT_BUTTON
  from assms(1) [unfolded GLUT_LEFT_BUTTON] show ?thesis
  proof (rule onMouse_steps)
    fix g1 g2 g3
    assume "onMouse_p st pX pY g = Inr g1" and "onMouse_l st pX pY g1 = Inr g2"
      and "onMouse_i st pX pY g2 = Inr g3" and "onMouse_m st pX pY g3 = Inr g'"
    then show ?thesis
      using assms(2) onMouse_p_pending onMouse_l_pending onMouse_i_pending onMouse_m_pending
      by blast
  qed
qed (use assms in \<open>auto simp: onMouse_def\<close>)

lemma onMouseMotion_pending:
  "onMouseMotion pX pY g = Inr g' \<Longrightarrow> pending_ok g \<Longrightarrow> pending_ok g'"
  by (auto simp: pending_ok_def onMouseMotion_def Let_def split: if_splits sum.splits)

lemma dispatch_pending:
  "dispatch ev g = Inr g' \<Longrightarrow> pending_ok g \<Longrightarrow> pending_ok g'"
  by (cases ev)
    (auto simp: onKeyboard_fields pending_ok_def
      dest: onMouse_pending onMouseMotion_pending)

lemma run_pending:
  "run evs g = Inr g' \<Longrightarrow> pending_ok g \<Longrightarrow> pending_ok g'"
proof (induction evs arbitrary: g)
  case Nil
  then show ?case by simp
next
  case (Cons ev evs)
  then show ?case
    by (auto split: sum.splits dest: dispatch_pending)
qed

lemma pending_ok_initial: "pending_ok onInitialization"
  by (simp add: pending_ok_def onInitialization_def)

text \<open>
  Every handler keeps the line registry a sequence of whole lines.
\<close>

lemma vtx_put_length: "vtx_put v i e = Inr v' \<Longrightarrow> length v' = length v"
  by (auto simp: vtx_put_def split: if_splits)

lemma onMouse_p_whole:
  "onMouse_p st pX pY g = Inr g' \<Longrightarrow> whole_lines g \<Longrightarrow> whole_lines g'"
  by (auto simp: whole_lines_def onMouse_p_def addPoint_def split: if_splits sum.splits)

lemma onMouse_l_whole:
  "onMouse_l st pX pY g = Inr g' \<Longrightarrow> whole_lines g \<Longrightarrow> whole_lines g'"
  by (auto simp: whole_lines_def onMouse_l_def startDrawing_def finishDrawing_def addLine_def
      Let_def split: if_splits sum.splits)

lemma onMouse_i_whole:
  "onMouse_i st pX pY g = Inr g' \<Longrightarrow> whole_lines g \<Longrightarrow> whole_lines g'"
  by (auto simp: whole_lines_def onMouse_i_def addPoint_def Let_def
      split: if_splits sum.splits)

lemma onMouse_m_whole:
  "onMouse_m st pX pY g = Inr g' \<Longrightarrow> whole_lines g \<Longrightarrow> whole_lines g'"
  by (auto simp: whole_lines_def onMouse_m_def Let_def split: if_splits sum.splits)

lemma onMouse_whole:
  assumes "onMouse button st pX pY g = Inr g'" and "whole_lines g"
  shows "whole_lines g'"
proof (cases button)
  case GLUT_LEFT_BUTTON
  from assms(1) [unfolded GLUT_LEFT_BUTTON] show ?thesis
  proof (rule onMouse_steps)
    fix g1 g2 g3
    assume "onMouse_p st pX pY g = Inr g1" and "onMouse_l st pX pY g1 = Inr g2"
      and "onMouse_i st pX pY g2 = Inr g3" and "onMouse_m st pX pY g3 = Inr g'"
    then show ?thesis
      using assms(2) onMouse_p_whole onMouse_l_whole onMouse_i_whole onMouse_m_whole
      by blast
  qed
qed (use assms in \<open>auto simp: onMouse_def\<close>)

lemma onMouseMotion_whole:
  "onMouseMotion pX pY g = Inr g' \<Longrightarrow> whole_lines g \<Longrightarrow> whole_lines g'"
  by (auto simp: whole_lines_def onMouseMotion_def Let_def
      split: if_splits sum.splits dest!: vtx_put_length)

lemma dispatch_whole:
  "dispatch ev g = Inr g' \<Longrightarrow> whole_lines g \<Longrightarrow> whole_lines g'"
  by (cases ev)
    (auto simp: onKeyboard_fields whole_lines_def
      dest: onMouse_whole onMouseMotion_whole)

lemma run_whole:
  "run evs g = Inr g' \<Longrightarrow> whole_lines g \<Longrightarrow> whole_lines g'"
proof (induction evs arbitrary: g)
  case Nil
  then show ?case by simp
next
  case (Cons ev evs)
  then show ?case
    by (auto split: sum.splits dest: dispatch_whole)
qed

lemma run_whole_lines_initial:
  "run evs onInitialization = Inr g \<Longrightarrow> length (lines g) mod 4 = 0"
  using run_whole [of evs onInitialization g]
  by (simp add: whole_lines_def onInitialization_def)

subsection \<open>DrawLine mode\<close>



lemmas dist_defs = dist_f_def f_sub_Fin rnd_fractions rnd_vals rnd_half sqrt_vals

lemma two_points_distances:
  "dist_f (vec3 (- (1 / 4)) 0 1) (vec3 (- (1 / 2)) 0 1) = Fin (1 / 4)"
  "dist_f (vec3 (- (1 / 4)) 0 1) (vec3 (1 / 2) 0 1) = Fin (3 / 4)"
  "dist_f (vec3 (1 / 4) 0 1) (vec3 (- (1 / 2)) 0 1) = Fin (3 / 4)"
  "dist_f (vec3 (1 / 4) 0 1) (vec3 (1 / 2) 0 1) = Fin (1 / 4)"
  by (simp_all add: dist_defs)

lemma nearest_left:
  "searchNearestP [vec3 (- (1 / 2)) 0 1, vec3 (1 / 2) 0 1] (vec3 (- (1 / 4)) 0 1) = vec3 (- (1 / 2)) 0 1"
  by (simp add: searchNearestP_def two_points_distances)

lemma nearest_right:
  "searchNearestP [vec3 (- (1 / 2)) 0 1, vec3 (1 / 2) 0 1] (vec3 (1 / 4) 0 1) = vec3 (1 / 2) 0 1"
  by (simp add: searchNearestP_def two_points_distances)



lemmas handler_defs =
  onMouse_def onMouse_p_def onMouse_l_def onMouse_i_def onMouse_m_def onMouseMotion_def
  onKeyboard_def onKeyboardUp_def addPoint_def addLine_def startDrawing_def finishDrawing_def
  isFirst_def size_points_def

lemma run_append:
  "run (evs @ evs') g = (case run evs g of Inl e \<Rightarrow> Inl e | Inr g' \<Rightarrow> run evs' g')"
  by (induction evs arbitrary: g) (auto split: sum.splits)

lemma run_snoc:
  "run evs g = Inr g' \<Longrightarrow> run (evs @ [ev]) g = dispatch ev g'"
  by (simp add: run_append split: sum.splits)

lemma run_place_two_points:
  "run (place_two_points @ [Keyboard CHR ''l'']) onInitialization = Inr two_points_state"
  by (simp add: place_two_points_def two_points_state_def onInitialization_def handler_defs
      cursor_vals Let_def)

lemma Line_ctor_horizontal:
  "Line_ctor (vec3 (- (1 / 2)) 0 1) (vec3 (1 / 2) 0 1) =
      \<lparr> p1 = vec3 (- (1 / 2)) 0 1, p2 = vec3 (1 / 2) 0 1, p3 = vec3 (- 1) 0 1, p4 = vec3 1 0 1,
        a = 0, b = - 1, c = 0, px = 1, py = 0 \<rparr>"
  by (simp add: Line_ctor_def Let_def)

lemma press_start:
  "onMouse GLUT_LEFT_BUTTON GLUT_DOWN 225 300 two_points_state
     = Inr (two_points_state\<lparr> firstCLick := True, startPoint := vec3 (- (1 / 2)) 0 1 \<rparr>)"
  by (simp add: two_points_state_def onInitialization_def handler_defs cursor_vals nearest_left
      Let_def)

lemma press_finish:
  "onMouse GLUT_LEFT_BUTTON GLUT_DOWN 375 300
       (two_points_state\<lparr> firstCLick := True, startPoint := vec3 (- (1 / 2)) 0 1 \<rparr>)
     = Inr (two_points_state
               \<lparr> lines := [vec3 (- (1 / 2)) 0 1, vec3 (1 / 2) 0 1, vec3 (- 1) 0 1, vec3 1 0 1],
                 firstCLick := False, startPoint := vec3 (- (1 / 2)) 0 1 \<rparr>)"
  by (simp add: two_points_state_def onInitialization_def handler_defs cursor_vals nearest_right
      Line_ctor_horizontal Let_def)


subsection \<open>MoveLine mode: the press\<close>


lemma onMouse_m_only:
  "current g = Key_m \<Longrightarrow> onMouse GLUT_LEFT_BUTTON st pX pY g = onMouse_m st pX pY g"
  by (simp add: onMouse_def onMouse_p_def onMouse_l_def onMouse_i_def)

lemma run_pending_start:
  "run (place_two_points @ [Keyboard CHR ''l'', Mouse GLUT_LEFT_BUTTON GLUT_DOWN 225 300])
     onInitialization
   = Inr (two_points_state\<lparr> firstCLick := True, startPoint := vec3 (- (1 / 2)) 0 1 \<rparr>)"
proof -
  have "run ((place_two_points @ [Keyboard CHR ''l'']) @ [Mouse GLUT_LEFT_BUTTON GLUT_DOWN 225 300])
     onInitialization
     = Inr (two_points_state\<lparr> firstCLick := True, startPoint := vec3 (- (1 / 2)) 0 1 \<rparr>)"
    by (simp only: run_snoc [OF run_place_two_points] dispatch.simps press_start)
  then show ?thesis by simp
qed

lemma run_draw_horizontal:
  "run (draw_horizontal @ [Keyboard CHR ''m'']) onInitialization = Inr one_line_state"
proof -
  let ?g1 = "two_points_state\<lparr> firstCLick := True, startPoint := vec3 (- (1 / 2)) 0 1 \<rparr>"
  let ?g2 = "two_points_state
               \<lparr> lines := [vec3 (- (1 / 2)) 0 1, vec3 (1 / 2) 0 1, vec3 (- 1) 0 1, vec3 1 0 1],
                 firstCLick := False, startPoint := vec3 (- (1 / 2)) 0 1 \<rparr>"
  have up1: "dispatch (Mouse GLUT_LEFT_BUTTON GLUT_UP 225 300) ?g1 = Inr ?g1"
    by (simp add: two_points_state_def onInitialization_def handler_defs)
  have up2: "run [Mouse GLUT_LEFT_BUTTON GLUT_UP 375 300, Keyboard CHR ''m''] ?g2 = Inr one_line_state"
    by (simp add: two_points_state_def one_line_state_def onInitialization_def handler_defs Let_def)
  have "run ((place_two_points @ [Keyboard CHR ''l'', Mouse GLUT_LEFT_BUTTON GLUT_DOWN 225 300])
             @ [Mouse GLUT_LEFT_BUTTON GLUT_UP 225 300, Mouse GLUT_LEFT_BUTTON GLUT_DOWN 375 300]
             @ [Mouse GLUT_LEFT_BUTTON GLUT_UP 375 300, Keyboard CHR ''m''])
          onInitialization = Inr one_line_state"
    unfolding run_append [of "place_two_points @ [Keyboard CHR ''l'', Mouse GLUT_LEFT_BUTTON GLUT_DOWN 225 300]"]
      run_pending_start
    unfolding run_append [of "[Mouse GLUT_LEFT_BUTTON GLUT_UP 225 300, Mouse GLUT_LEFT_BUTTON GLUT_DOWN 375 300]"]
    using up1 up2 press_finish by simp
  then show ?thesis by (simp add: draw_horizontal_def)
qed

lemma one_line_distances:
  "slot_distance (lines one_line_state) (vec3 0 1 1) 0 = Fin 1"
  "slot_distance (lines one_line_state) (vec3 0 0 1) 0 = Fin 0"
  by (simp_all add: one_line_state_def vec_f_defs rnd_vals rnd_half rnd_fractions sqrt_vals)


lemma scan_one_line:
  assumes "length Vtx = 4"
  shows "findNearestLine Vtx pos =
     (let d0 = slot_distance Vtx pos 0
      in if f_lt d0 (Fin 20) \<and> f_lt d0 (Fin threshold) then Inr 0 else Inr (- 1))"
  using assms
  by (simp add: findNearestLine_def findNearestLine_loop_step findNearestLine_loop_exit Let_def)

lemma one_line_hit: "findNearestLine (lines one_line_state) (vec3 0 0 1) = Inr 0"
proof -
  have len: "length (lines one_line_state) = 4" by (simp add: one_line_state_def)
  show ?thesis by (simp add: scan_one_line [OF len] one_line_distances threshold_def)
qed



subsection \<open>MoveLine mode: the drag\<close>

text \<open>
  A press in MoveLine mode that returns starts a drag: \<open>idx\<close> is the first slot of a
  stored line, all four slots exist, and \<open>moved\<close> is the line through its two defining
  points.
\<close>

lemma findNearestLine_index:
  assumes "length Vtx mod 4 = 0" and "findNearestLine Vtx pos = Inr r" and "r \<noteq> - 1"
  shows "\<exists>j. r = int j \<and> 4 dvd j \<and> j < length Vtx"
proof -
  obtain r' d where "findNearestLine Vtx pos = Inr r'" and "scanned Vtx pos (length Vtx) d r'"
    using findNearestLine_scanned [OF assms(1)] by blast
  then have "scanned Vtx pos (length Vtx) d r" using assms(2) by simp
  then show ?thesis
    using assms(3) by (auto simp: scanned_def best_before_def)
qed

lemma onMouse_press_starts_drag:
  assumes "current g = Key_m" and "length (lines g) mod 4 = 0"
    and "onMouse GLUT_LEFT_BUTTON GLUT_DOWN pX pY g = Inr g'"
  shows "current g' = Key_m \<and> 0 \<le> idx g' \<and>
         idx g' + 3 < int (length (lines g')) \<and> lines g' = lines g \<and>
         moved g' = Line_ctor (lines g ! nat (idx g')) (lines g ! nat (idx g' + 1))"
proof -
  have m: "onMouse_m GLUT_DOWN pX pY g = Inr g'"
    using assms(1,3) by (simp add: onMouse_m_only)
  then obtain pos r u v where r: "findNearestLine (lines g) pos = Inr r"
    and u: "vtx_at (lines g) r = Inr u" and v: "vtx_at (lines g) (r + 1) = Inr v"
    and g': "g' = g\<lparr> idx := r, moved := Line_ctor u v \<rparr>"
    using assms(1) by (auto simp: onMouse_m_def Let_def split: sum.splits)
  have rng: "0 \<le> r" "r < int (length (lines g))"
    using u by (auto simp: vtx_at_def split: if_splits)
  have uv: "u = lines g ! nat r" "v = lines g ! nat (r + 1)"
    using u v by (auto simp: vtx_at_def split: if_splits)
  have "r \<noteq> - 1" using rng by simp
  then obtain j where j: "r = int j" "4 dvd j" "j < length (lines g)"
    using findNearestLine_index [OF assms(2) r] by blast
  have "j + 3 < length (lines g)" using j(2,3) assms(2) by presburger
  then show ?thesis
    using assms(1) j(1) uv by (simp add: g')
qed

lemma press_starts_drag_f:
  assumes "current g = Key_m" and "length (lines g) mod 4 = 0"
    and "onMouse GLUT_LEFT_BUTTON GLUT_DOWN pX pY g = Inr g'"
  shows "current_f (to_globals_f g') = Key_m \<and> 0 \<le> idx_f (to_globals_f g') \<and>
         idx_f (to_globals_f g') + 3 < int (length (lines_f (to_globals_f g')))"
  using onMouse_press_starts_drag [OF assms] by (auto simp: to_globals_f_def)

text \<open>
  A motion event of a drag stops the real-valued model exactly when the dragged line
  is vertical.
\<close>

lemma onMouseMotion_stops_iff:
  assumes "current g = Key_m" and "0 \<le> idx g" and "idx g + 3 < int (length (lines g))"
    and "\<bar>pX\<bar> \<le> 2 ^ 31" and "\<bar>pY\<bar> \<le> 2 ^ 31"
  shows "(b (moved g) = 0 \<longrightarrow> onMouseMotion pX pY g = Inl DivByZero)
       \<and> (b (moved g) \<noteq> 0 \<longrightarrow> (\<exists>g'. onMouseMotion pX pY g = Inr g'))"
proof -
  obtain cX cY where pos: "cursor pX pY = Inr (vec3 cX cY 1)"
    using cursor_finite [OF assms(4,5)] by blast
  have n: "idx g \<noteq> - 1" using assms(2) by simp
  have zero: "onMouseMotion pX pY g = Inl DivByZero" if "b (moved g) = 0"
    using assms(1) n by (simp add: onMouseMotion_def pos move_Inl [OF that])
  have nonzero: "\<exists>g'. onMouseMotion pX pY g = Inr g'" if "b (moved g) \<noteq> 0"
    using assms(1-3) n by (simp add: onMouseMotion_def pos move_Inr [OF that] vtx_put_def)
  show ?thesis using zero nonzero by blast
qed











lemma run_dragging:
  "run (draw_horizontal @ [Keyboard CHR ''m'', Mouse GLUT_LEFT_BUTTON GLUT_DOWN 300 300])
     onInitialization = Inr dragging_state"
proof -
  have "dispatch (Mouse GLUT_LEFT_BUTTON GLUT_DOWN 300 300) one_line_state = Inr dragging_state"
    using one_line_hit
    by (simp add: onMouse_m_only onMouse_m_def cursor_vals Let_def
        dragging_state_def one_line_state_def vtx_at_def)
  then have "run ((draw_horizontal @ [Keyboard CHR ''m'']) @ [Mouse GLUT_LEFT_BUTTON GLUT_DOWN 300 300])
     onInitialization = Inr dragging_state"
    by (simp only: run_snoc [OF run_draw_horizontal])
  then show ?thesis by simp
qed

lemma Line_ctor_vertical:
  "Line_ctor (vec3 0 (1 / 2) 1) (vec3 0 (- (1 / 2)) 1) =
     \<lparr> p1 = vec3 0 (1 / 2) 1, p2 = vec3 0 (- (1 / 2)) 1, p3 = vec3 0 (- 1) 1, p4 = vec3 0 1 1,
       a = 1, b = 0, c = 0, px = 0, py = - 1 \<rparr>"
  by (simp add: Line_ctor_def Let_def)

lemma cursor_vals_vertical:
  "cursor 300 150 = Inr (vec3 0 (1 / 2) 1)"
  "cursor 300 450 = Inr (vec3 0 (- (1 / 2)) 1)"
  "cursor 450 150 = Inr (vec3 (1 / 2) (1 / 2) 1)"
  by (simp_all add: cursor_defs)

lemma run_vertical_points:
  "run [Mouse GLUT_LEFT_BUTTON GLUT_DOWN 300 150, Mouse GLUT_LEFT_BUTTON GLUT_DOWN 300 450,
        Keyboard CHR ''l''] onInitialization = Inr vertical_points_state"
  by (simp add: vertical_points_state_def onInitialization_def handler_defs Let_def
      cursor_vals_vertical)

lemma vertical_distances:
  "dist_f (vec3 0 (1 / 2) 1) (vec3 0 (1 / 2) 1) = Fin 0"
  "dist_f (vec3 0 (1 / 2) 1) (vec3 0 (- (1 / 2)) 1) = Fin 1"
  "dist_f (vec3 0 (- (1 / 2)) 1) (vec3 0 (1 / 2) 1) = Fin 1"
  "dist_f (vec3 0 (- (1 / 2)) 1) (vec3 0 (- (1 / 2)) 1) = Fin 0"
  by (simp_all add: dist_defs)

lemma nearest_vertical:
  "searchNearestP [vec3 0 (1 / 2) 1, vec3 0 (- (1 / 2)) 1] (vec3 0 (1 / 2) 1) = vec3 0 (1 / 2) 1"
  "searchNearestP [vec3 0 (1 / 2) 1, vec3 0 (- (1 / 2)) 1] (vec3 0 (- (1 / 2)) 1) = vec3 0 (- (1 / 2)) 1"
  by (simp_all add: searchNearestP_def vertical_distances)

lemma run_vertical_start:
  "run ([Mouse GLUT_LEFT_BUTTON GLUT_DOWN 300 150, Mouse GLUT_LEFT_BUTTON GLUT_DOWN 300 450,
        Keyboard CHR ''l''] @ [Mouse GLUT_LEFT_BUTTON GLUT_DOWN 300 150]) onInitialization
   = Inr (startDrawing (vec3 0 (1 / 2) 1) vertical_points_state)"
  unfolding run_snoc [OF run_vertical_points]
  by (simp add: vertical_points_state_def onInitialization_def handler_defs Let_def
      nearest_vertical cursor_vals_vertical)

lemma run_vertical_line:
  "run (([Mouse GLUT_LEFT_BUTTON GLUT_DOWN 300 150, Mouse GLUT_LEFT_BUTTON GLUT_DOWN 300 450,
        Keyboard CHR ''l''] @ [Mouse GLUT_LEFT_BUTTON GLUT_DOWN 300 150])
        @ [Mouse GLUT_LEFT_BUTTON GLUT_DOWN 300 450]) onInitialization
   = Inr (vertical_drag_state\<lparr> current := Key_l, moved := Line_default \<rparr>)"
  unfolding run_snoc [OF run_vertical_start]
  by (simp add: vertical_points_state_def vertical_drag_state_def onInitialization_def
      handler_defs Let_def nearest_vertical Line_ctor_vertical cursor_vals_vertical)

lemma run_vertical_line_m:
  "run ((([Mouse GLUT_LEFT_BUTTON GLUT_DOWN 300 150, Mouse GLUT_LEFT_BUTTON GLUT_DOWN 300 450,
        Keyboard CHR ''l''] @ [Mouse GLUT_LEFT_BUTTON GLUT_DOWN 300 150])
        @ [Mouse GLUT_LEFT_BUTTON GLUT_DOWN 300 450]) @ [Keyboard CHR ''m'']) onInitialization
   = Inr (vertical_drag_state\<lparr> moved := Line_default \<rparr>)"
  unfolding run_snoc [OF run_vertical_line]
  by (simp add: vertical_drag_state_def onInitialization_def handler_defs Let_def)

lemma vertical_hit:
  "findNearestLine [vec3 0 (1 / 2) 1, vec3 0 (- (1 / 2)) 1, vec3 0 (- 1) 1, vec3 0 1 1] (vec3 0 0 1)
     = Inr 0"
proof -
  have d: "slot_distance [vec3 0 (1 / 2) 1, vec3 0 (- (1 / 2)) 1, vec3 0 (- 1) 1, vec3 0 1 1]
             (vec3 0 0 1) 0 = Fin 0"
    by (simp add: vec_f_defs rnd_vals rnd_half rnd_fractions sqrt_vals)
  show ?thesis by (simp add: scan_one_line d threshold_def)
qed

lemma run_vertical_drag:
  "run (draw_vertical @ [Keyboard CHR ''m'', Mouse GLUT_LEFT_BUTTON GLUT_DOWN 300 300])
     onInitialization = Inr vertical_drag_state"
proof -
  have "dispatch (Mouse GLUT_LEFT_BUTTON GLUT_DOWN 300 300)
          (vertical_drag_state\<lparr> moved := Line_default \<rparr>) = Inr vertical_drag_state"
    using vertical_hit
    by (simp add: onMouse_m_only onMouse_m_def cursor_vals Let_def
        vertical_drag_state_def onInitialization_def vtx_at_def)
  then have "run (((([Mouse GLUT_LEFT_BUTTON GLUT_DOWN 300 150, Mouse GLUT_LEFT_BUTTON GLUT_DOWN 300 450,
        Keyboard CHR ''l''] @ [Mouse GLUT_LEFT_BUTTON GLUT_DOWN 300 150])
        @ [Mouse GLUT_LEFT_BUTTON GLUT_DOWN 300 450]) @ [Keyboard CHR ''m''])
        @ [Mouse GLUT_LEFT_BUTTON GLUT_DOWN 300 300]) onInitialization = Inr vertical_drag_state"
    by (simp only: run_snoc [OF run_vertical_line_m])
  then show ?thesis
    by (simp add: draw_vertical_def)
qed

text \<open>
  The input interface reaches the division by zero of \<open>move\<close>: a vertical line is
  drawn, selected in MoveLine mode and dragged.
\<close>

lemma run_vertical_drag_motion:
  "run (draw_vertical @ [Keyboard CHR ''m'', Mouse GLUT_LEFT_BUTTON GLUT_DOWN 300 300,
                          MouseMotion 450 150])
     onInitialization = Inl DivByZero"
proof -
  have "dispatch (MouseMotion 450 150) vertical_drag_state = Inl DivByZero"
    by (simp add: onMouseMotion_def vertical_drag_state_def onInitialization_def
        Line_ctor_vertical move_Inl Let_def cursor_vals_vertical)
  then have "run ((draw_vertical @ [Keyboard CHR ''m'', Mouse GLUT_LEFT_BUTTON GLUT_DOWN 300 300])
         @ [MouseMotion 450 150]) onInitialization = Inl DivByZero"
    by (simp only: run_snoc [OF run_vertical_drag])
  then show ?thesis by simp
qed

lemma cursor_f_vals:
  "cursor_f (450, 150) = vec3f (Fin (1 / 2)) (Fin (1 / 2)) (Fin 1)"
  "cursor_f (0, 150) = vec3f (Fin (- 1)) (Fin (1 / 2)) (Fin 1)"
  "cursor_f (300, 150) = vec3f (Fin 0) (Fin (1 / 2)) (Fin 1)"
  by (simp_all add: cursor_f_def cX_of_def cY_of_def windowWidth_def windowHeight_def
      rnd_600 rnd_pixels rnd_fractions rnd_vals rnd_half f_sub_Fin)




text \<open>
  On the horizontal line through \<open>(-1/2, 0)\<close> and \<open>(1/2, 0)\<close>, dragged to the pixel
  \<open>(300, 150)\<close>, the two embeddings of the motion step agree: the slots become
  \<open>(-1, 1/2)\<close>, \<open>(1, 1/2)\<close> twice.
\<close>

lemma horizontal_drag_agrees:
  "(\<exists>g'. onMouseMotion 300 150 dragging_state = Inr g'
        \<and> lines g' = [vec3 (- 1) (1 / 2) 1, vec3 1 (1 / 2) 1, vec3 (- 1) (1 / 2) 1, vec3 1 (1 / 2) 1])
   \<and> (\<exists>g'. onMouseMotion_f (300, 150) (to_globals_f dragging_state) = Inr g'
        \<and> lines_f g' = map to_f [vec3 (- 1) (1 / 2) 1, vec3 1 (1 / 2) 1, vec3 (- 1) (1 / 2) 1, vec3 1 (1 / 2) 1])"
proof -
  have one: "\<exists>g'. onMouseMotion 300 150 dragging_state = Inr g'
        \<and> lines g' = [vec3 (- 1) (1 / 2) 1, vec3 1 (1 / 2) 1, vec3 (- 1) (1 / 2) 1, vec3 1 (1 / 2) 1]"
    by (simp add: onMouseMotion_def dragging_state_def one_line_state_def onInitialization_def
        cursor_vals_vertical move_def fdiv_def Let_def vtx_put_def Line_ctor_horizontal)
  have two: "\<exists>g'. onMouseMotion_f (300, 150) (to_globals_f dragging_state) = Inr g'
        \<and> lines_f g' = map to_f [vec3 (- 1) (1 / 2) 1, vec3 1 (1 / 2) 1, vec3 (- 1) (1 / 2) 1, vec3 1 (1 / 2) 1]"
    by (simp add: onMouseMotion_f_def to_globals_f_def to_Line_f_def to_f_def dragging_state_def
        one_line_state_def onInitialization_def Line_ctor_horizontal cursor_f_vals move_f_def
        vtx_put_def Let_def f_sub_Fin rnd_vals rnd_half rnd_fractions)
  show ?thesis using one two by blast
qed

end
